theory Spec2Isabelle
  imports Main "HOL-Library.AList"
begin

section \<open>JavaScript strings\<close>

text \<open>
  A JavaScript string is modelled as a \<^typ>\<open>string\<close>: one \<^typ>\<open>char\<close> stands for one
  code unit below 256, so \<open>length\<close> is \<open>String.prototype.length\<close>. Console logging
  (\<open>console.error\<close>, \<open>console.warn\<close>) has no effect on any value that is returned.
  The model keeps one of its lines, the one the content search writes when it cannot
  read a file, and leaves the \<open>DEBUG\<close> lines out.
\<close>

definition startsWith :: "string \<Rightarrow> string \<Rightarrow> bool" where
  "startsWith s p = (take (length p) s = p)"

fun includesStr :: "string \<Rightarrow> string \<Rightarrow> bool" where
  "includesStr [] q = (q = [])"
| "includesStr (c # s) q = (startsWith (c # s) q \<or> includesStr s q)"

fun split_on :: "char \<Rightarrow> string \<Rightarrow> string list" where
  "split_on sep [] = [[]]"
| "split_on sep (c # s) =
     (if c = sep then [] # split_on sep s
      else (case split_on sep s of
              [] \<Rightarrow> [[c]]
            | w # ws \<Rightarrow> (c # w) # ws))"

fun join_with :: "string \<Rightarrow> string list \<Rightarrow> string" where
  "join_with sep [] = []"
| "join_with sep [w] = w"
| "join_with sep (w # v # ws) = w @ sep @ join_with sep (v # ws)"

text \<open>\<open>s.replace(/^\/+|\/+$/g, '')\<close>: the leading and the trailing run of slashes go.\<close>

definition stripSlashes :: "string \<Rightarrow> string" where
  "stripSlashes s =
     rev (dropWhile (\<lambda>c. c = CHR ''/'') (rev (dropWhile (\<lambda>c. c = CHR ''/'') s)))"

text \<open>
  \<open>toLowerCase\<close>. Among the code units below 256 the letters with a lower case of their
  own are \<open>A\<close> to \<open>Z\<close> and the capitals \<open>0xC0\<close> to \<open>0xDE\<close> without the
  multiplication sign \<open>0xD7\<close>; each goes to the code unit 32 above it, and every other
  code unit stays.
\<close>

definition lowerChar :: "char \<Rightarrow> char" where
  "lowerChar c =
     (let n = (of_char c :: nat)
      in if (65 \<le> n \<and> n \<le> 90) \<or> (192 \<le> n \<and> n \<le> 222 \<and> n \<noteq> 215)
         then char_of (n + 32)
         else c)"

definition toLowerCase :: "string \<Rightarrow> string" where
  "toLowerCase s = map lowerChar s"

text \<open>Decimal rendering of a non-negative integer, as a template literal prints it.\<close>

definition digitChar :: "nat \<Rightarrow> char" where
  "digitChar d = ''0123456789'' ! d"

function showNat :: "nat \<Rightarrow> string" where
  "showNat n = (if n < 10 then [digitChar n] else showNat (n div 10) @ [digitChar (n mod 10)])"
  by pat_completeness auto
termination
  by (relation "measure (\<lambda>n. n)") auto

declare showNat.simps [simp del]

section \<open>Node's POSIX path module\<close>

text \<open>
  \<open>path.join\<close>, \<open>path.relative\<close>, \<open>path.basename\<close>, \<open>path.dirname\<close> and
  \<open>path.extname\<close> belong to the Node runtime, not to the repository. They are modelled
  on path segments: \<open>normalizeString\<close> drops empty and \<open>.\<close> segments, and a \<open>..\<close>
  segment removes the segment before it unless that is itself \<open>..\<close> (or there is none),
  in which case it is kept for a relative path and dropped for an absolute one.
\<close>

definition normStep :: "bool \<Rightarrow> string list \<Rightarrow> string \<Rightarrow> string list" where
  "normStep allowAboveRoot res seg =
     (if seg = [] \<or> seg = ''.'' then res
      else if seg = ''..'' then
        (if res \<noteq> [] \<and> last res \<noteq> ''..'' then butlast res
         else if allowAboveRoot then res @ [''..'']
         else res)
      else res @ [seg])"

definition normalizeSegments :: "bool \<Rightarrow> string list \<Rightarrow> string list" where
  "normalizeSegments allowAboveRoot segs = foldl (normStep allowAboveRoot) [] segs"

definition normalizeString :: "bool \<Rightarrow> string \<Rightarrow> string" where
  "normalizeString allowAboveRoot p =
     join_with ''/'' (normalizeSegments allowAboveRoot (split_on CHR ''/'' p))"

definition isAbsolute :: "string \<Rightarrow> bool" where
  "isAbsolute p = (case p of [] \<Rightarrow> False | c # _ \<Rightarrow> c = CHR ''/'')"

definition path_normalize :: "string \<Rightarrow> string" where
  "path_normalize p =
     (if p = [] then ''.''
      else
        let trailingSeparator = (last p = CHR ''/'');
            q = normalizeString (\<not> isAbsolute p) p
        in if q = [] then
             (if isAbsolute p then ''/'' else if trailingSeparator then ''./'' else ''.'')
           else
             (let q' = (if trailingSeparator then q @ ''/'' else q)
              in if isAbsolute p then CHR ''/'' # q' else q'))"

text \<open>\<open>path.join(a, b)\<close>: the non-empty arguments, joined by a slash and normalized.\<close>

definition path_join :: "string \<Rightarrow> string \<Rightarrow> string" where
  "path_join a b =
     (if a = [] \<and> b = [] then ''.''
      else if a = [] then path_normalize b
      else if b = [] then path_normalize a
      else path_normalize (a @ ''/'' @ b))"

text \<open>The non-empty segments of a path: the directories it names, one after the other.\<close>

definition segments :: "string \<Rightarrow> string list" where
  "segments p = filter (\<lambda>s. s \<noteq> []) (split_on CHR ''/'' p)"

text \<open>
  \<open>path.resolve(p)\<close> against the working directory, as segments of the absolute result.
\<close>

definition resolveSegments :: "string \<Rightarrow> string \<Rightarrow> string list" where
  "resolveSegments cwd p =
     normalizeSegments False
       (if isAbsolute p then split_on CHR ''/'' p
        else split_on CHR ''/'' cwd @ split_on CHR ''/'' p)"

fun dropCommon :: "string list \<Rightarrow> string list \<Rightarrow> string list \<times> string list" where
  "dropCommon (x # xs) (y # ys) = (if x = y then dropCommon xs ys else (x # xs, y # ys))"
| "dropCommon xs ys = (xs, ys)"

definition path_relative :: "string \<Rightarrow> string \<Rightarrow> string \<Rightarrow> string" where
  "path_relative cwd from to =
     (case dropCommon (resolveSegments cwd from) (resolveSegments cwd to) of
        (up, down) \<Rightarrow> join_with ''/'' (replicate (length up) ''..'' @ down))"

definition path_basename :: "string \<Rightarrow> string" where
  "path_basename p = (case segments p of [] \<Rightarrow> [] | s # ss \<Rightarrow> last (s # ss))"

definition path_dirname :: "string \<Rightarrow> string" where
  "path_dirname p =
     (if p = [] then ''.''
      else
        let r = dropWhile (\<lambda>c. c \<noteq> CHR ''/'')
                  (dropWhile (\<lambda>c. c = CHR ''/'') (rev (tl p)))
        in if r = [] then (if isAbsolute p then ''/'' else ''.'')
           else if isAbsolute p \<and> length r = 1 then ''//''
           else take (length r) p)"

definition lastIndexOf :: "string \<Rightarrow> char \<Rightarrow> nat option" where
  "lastIndexOf s c =
     (case dropWhile (\<lambda>x. x \<noteq> c) (rev s) of [] \<Rightarrow> None | _ # r \<Rightarrow> Some (length r))"

definition path_extname :: "string \<Rightarrow> string" where
  "path_extname p =
     (let b = path_basename p
      in case lastIndexOf b CHR ''.'' of
           None \<Rightarrow> []
         | Some i \<Rightarrow> if i = 0 \<or> b = ''..'' then [] else drop i b)"

section \<open>The sandbox check\<close>

datatype js_error = Error (message: string)

text \<open>
  The platform around the server: the configured vault root, the working directory
  (\<open>process.cwd()\<close>) and the renderings of a \<open>Date\<close>, which depend on locale and time
  zone. A time is a number of milliseconds.
\<close>

record host =
  OBSIDIAN_VAULT_PATH :: string
  cwd :: string
  toISOString :: "int \<Rightarrow> string"
  toLocaleString :: "int \<Rightarrow> string"
  parseDate :: "string \<Rightarrow> int"

text \<open>
  Lines 35 to 50 of \<open>getObsidianFiles\<close>: the path it lists, or the error it throws.
  The first component is \<open>normalizedDirPath\<close>.
\<close>

definition accessDeniedDetails :: "host \<Rightarrow> string \<Rightarrow> string \<Rightarrow> string \<Rightarrow> string" where
  "accessDeniedDetails h dirPathStr normalizedDirPath fullPath =
     ''Access denied details:'' @ [CHR 0x0A] @
     ''                       - OBSIDIAN_VAULT_PATH: '' @ OBSIDIAN_VAULT_PATH h @ [CHR 0x0A] @
     ''                       - dirPathStr: '' @ dirPathStr @ [CHR 0x0A] @
     ''                       - normalizedDirPath: '' @ normalizedDirPath @ [CHR 0x0A] @
     ''                       - fullPath: '' @ fullPath @ [CHR 0x0A] @
     ''                       - process.cwd(): '' @ cwd h @ [CHR 0x0A] @
     ''                       - fullPath.startsWith check: '' @
       (if startsWith fullPath (OBSIDIAN_VAULT_PATH h) then ''true'' else ''false'') @ [CHR 0x0A] @
     ''                       Path does not start with allowed directory''"

definition listingPath :: "host \<Rightarrow> string \<Rightarrow> js_error + (string \<times> string)" where
  "listingPath h dirPathStr =
     (let normalizedDirPath = (if dirPathStr = ''/'' then [] else stripSlashes dirPathStr);
          fullPath = path_join (OBSIDIAN_VAULT_PATH h) normalizedDirPath
      in if \<not> startsWith fullPath (OBSIDIAN_VAULT_PATH h)
         then Inl (Error (accessDeniedDetails h dirPathStr normalizedDirPath fullPath))
         else Inr (normalizedDirPath, fullPath))"

text \<open>
  Lines 212 to 218 of \<open>readObsidianFile\<close>, which \<open>obsidian-create\<close> (422 to 427) and
  \<open>obsidian-update\<close> (489 to 494) repeat word for word.
\<close>

definition filePathOf :: "host \<Rightarrow> string \<Rightarrow> js_error + (string \<times> string)" where
  "filePathOf h filePath =
     (let normalizedPath = stripSlashes filePath;
          fullPath = path_join (OBSIDIAN_VAULT_PATH h) normalizedPath
      in if \<not> startsWith fullPath (OBSIDIAN_VAULT_PATH h)
         then Inl (Error ''Access denied: Path outside of allowed directory'')
         else Inr (normalizedPath, fullPath))"

text \<open>
  A path lies in a directory when the directory's segments begin the path's segments.
\<close>

definition insideDirectory :: "string \<Rightarrow> string \<Rightarrow> bool" where
  "insideDirectory root p = (take (length (segments root)) (segments p) = segments root)"

definition accessDenied :: "js_error \<Rightarrow> bool" where
  "accessDenied e = startsWith (message e) ''Access denied''"

section \<open>The file system\<close>

text \<open>
  The calls of \<open>fs/promises\<close> act on a tree. A directory lists its entries in the order
  \<open>readdir\<close> yields them; a regular file has its text, its modification time and its
  birth time; \<open>Special\<close> is an entry that is neither (a socket, say): \<open>stat\<close> succeeds on
  it, \<open>isFile()\<close> and \<open>isDirectory()\<close> are both false, and it cannot be opened. There
  are no symbolic links and no permissions. A file holds its text in UTF-8, and its size
  is the number of bytes of that encoding: one for a code unit below 128, two for one
  from 128 to 255.
\<close>

datatype node =
    File (fileText: string) (fileMtime: int) (fileBirthtime: int)
  | Dir "(string \<times> node) list"
  | Special int

datatype errno = ENOENT | ENOTDIR | EISDIR | EEXIST | ENXIO

fun lookup :: "node \<Rightarrow> string list \<Rightarrow> errno + node" where
  "lookup n [] = Inr n"
| "lookup (Dir es) (s # ss) =
     (case map_of es s of None \<Rightarrow> Inl ENOENT | Some c \<Rightarrow> lookup c ss)"
| "lookup (File c m b) (s # ss) = Inl ENOTDIR"
| "lookup (Special m) (s # ss) = Inl ENOTDIR"

fun writeNode :: "node \<Rightarrow> string list \<Rightarrow> string \<Rightarrow> int \<Rightarrow> errno + node" where
  "writeNode (File c m b) [] new now = Inr (File new now b)"
| "writeNode (Dir es) [] new now = Inl EISDIR"
| "writeNode (Special m) [] new now = Inl ENXIO"
| "writeNode (Dir es) (s # ss) new now =
     (case map_of es s of
        None \<Rightarrow> if ss = [] then Inr (Dir (es @ [(s, File new now now)])) else Inl ENOENT
      | Some c \<Rightarrow>
          (case writeNode c ss new now of
             Inl e \<Rightarrow> Inl e
           | Inr c' \<Rightarrow> Inr (Dir (AList.update s c' es))))"
| "writeNode (File c m b) (s # ss) new now = Inl ENOTDIR"
| "writeNode (Special m) (s # ss) new now = Inl ENOTDIR"

fun mkdirp :: "node \<Rightarrow> string list \<Rightarrow> errno + node" where
  "mkdirp (Dir es) [] = Inr (Dir es)"
| "mkdirp (File c m b) [] = Inl EEXIST"
| "mkdirp (Special m) [] = Inl EEXIST"
| "mkdirp (Dir es) (s # ss) =
     (case map_of es s of
        None \<Rightarrow>
          (case mkdirp (Dir []) ss of
             Inl e \<Rightarrow> Inl e
           | Inr c \<Rightarrow> Inr (Dir (es @ [(s, c)])))
      | Some c \<Rightarrow>
          (case mkdirp c ss of
             Inl e \<Rightarrow> Inl e
           | Inr c' \<Rightarrow> Inr (Dir (AList.update s c' es))))"
| "mkdirp (File c m b) (s # ss) = Inl ENOTDIR"
| "mkdirp (Special m) (s # ss) = Inl ENOTDIR"

text \<open>The message of a system error of Node: code, description, call and path.\<close>

fun errnoText :: "errno \<Rightarrow> string" where
  "errnoText ENOENT = ''ENOENT: no such file or directory''"
| "errnoText ENOTDIR = ''ENOTDIR: not a directory''"
| "errnoText EISDIR = ''EISDIR: illegal operation on a directory''"
| "errnoText EEXIST = ''EEXIST: file already exists''"
| "errnoText ENXIO = ''ENXIO: no such device or address''"

definition systemError :: "errno \<Rightarrow> string \<Rightarrow> string \<Rightarrow> js_error" where
  "systemError e syscall p = Error (errnoText e @ '', '' @ syscall @ '' '' @ [CHR 0x27] @ p @ [CHR 0x27])"

record stats =
  st_isFile :: bool
  st_isDirectory :: bool
  st_size :: nat
  st_mtime :: int
  st_birthtime :: int

fun utf8Length :: "string \<Rightarrow> nat" where
  "utf8Length [] = 0"
| "utf8Length (c # s) = (if (of_char c :: nat) < 128 then 1 else 2) + utf8Length s"

fun statNode :: "node \<Rightarrow> stats" where
  "statNode (File c m b) =
     \<lparr>st_isFile = True, st_isDirectory = False, st_size = utf8Length c, st_mtime = m,
      st_birthtime = b\<rparr>"
| "statNode (Dir es) =
     \<lparr>st_isFile = False, st_isDirectory = True, st_size = 0, st_mtime = 0, st_birthtime = 0\<rparr>"
| "statNode (Special m) =
     \<lparr>st_isFile = False, st_isDirectory = False, st_size = 0, st_mtime = m, st_birthtime = m\<rparr>"

fun isDirNode :: "node \<Rightarrow> bool" where
  "isDirNode (Dir es) = True"
| "isDirNode (File c m b) = False"
| "isDirNode (Special m) = False"

definition fs_stat :: "host \<Rightarrow> node \<Rightarrow> string \<Rightarrow> js_error + stats" where
  "fs_stat h fs p =
     (case lookup fs (resolveSegments (cwd h) p) of
        Inl e \<Rightarrow> Inl (systemError e ''stat'' p)
      | Inr n \<Rightarrow> Inr (statNode n))"

definition fs_access :: "host \<Rightarrow> node \<Rightarrow> string \<Rightarrow> js_error + unit" where
  "fs_access h fs p =
     (case lookup fs (resolveSegments (cwd h) p) of
        Inl e \<Rightarrow> Inl (systemError e ''access'' p)
      | Inr n \<Rightarrow> Inr ())"

definition fs_readdir :: "host \<Rightarrow> node \<Rightarrow> string \<Rightarrow> js_error + (string \<times> bool) list" where
  "fs_readdir h fs p =
     (case lookup fs (resolveSegments (cwd h) p) of
        Inl e \<Rightarrow> Inl (systemError e ''scandir'' p)
      | Inr (Dir es) \<Rightarrow> Inr (map (\<lambda>(name, n). (name, isDirNode n)) es)
      | Inr (File c m b) \<Rightarrow> Inl (systemError ENOTDIR ''scandir'' p)
      | Inr (Special m) \<Rightarrow> Inl (systemError ENOTDIR ''scandir'' p))"

definition fs_readFile :: "host \<Rightarrow> node \<Rightarrow> string \<Rightarrow> js_error + string" where
  "fs_readFile h fs p =
     (case lookup fs (resolveSegments (cwd h) p) of
        Inl e \<Rightarrow> Inl (systemError e ''open'' p)
      | Inr (File c m b) \<Rightarrow> Inr c
      | Inr (Dir es) \<Rightarrow> Inl (Error (errnoText EISDIR @ '', read''))
      | Inr (Special m) \<Rightarrow> Inl (systemError ENXIO ''open'' p))"

definition fs_writeFile :: "host \<Rightarrow> node \<Rightarrow> string \<Rightarrow> string \<Rightarrow> int \<Rightarrow> js_error + node" where
  "fs_writeFile h fs p text now =
     (case writeNode fs (resolveSegments (cwd h) p) text now of
        Inl e \<Rightarrow> Inl (systemError e ''open'' p)
      | Inr fs' \<Rightarrow> Inr fs')"

definition fs_mkdir :: "host \<Rightarrow> node \<Rightarrow> string \<Rightarrow> js_error + node" where
  "fs_mkdir h fs p =
     (case mkdirp fs (resolveSegments (cwd h) p) of
        Inl e \<Rightarrow> Inl (systemError e ''mkdir'' p)
      | Inr fs' \<Rightarrow> Inr fs')"

section \<open>Listing and reading\<close>

record FileInfo =
  name :: string
  path :: string
  isDirectory :: bool
  sizeBytes :: nat
  modified :: string

record FileListResult =
  files :: "FileInfo list"
  currentPath :: string

text \<open>
  \<open>Promise.all\<close> over the entries: the listing fails when the \<open>stat\<close> of an entry
  fails (with the first failure in the order of the entries).
\<close>

fun collect :: "('a \<Rightarrow> js_error + 'b) \<Rightarrow> 'a list \<Rightarrow> js_error + 'b list" where
  "collect f [] = Inr []"
| "collect f (x # xs) =
     (case f x of
        Inl e \<Rightarrow> Inl e
      | Inr y \<Rightarrow> (case collect f xs of Inl e \<Rightarrow> Inl e | Inr ys \<Rightarrow> Inr (y # ys)))"

definition direntInfo :: "host \<Rightarrow> node \<Rightarrow> int \<Rightarrow> string \<Rightarrow> string \<times> bool \<Rightarrow> js_error + FileInfo" where
  "direntInfo h fs now fullPath dirent =
     (case dirent of (dname, isDir) \<Rightarrow>
        let filePath = path_join fullPath dname
        in if \<not> isDir then
             (case fs_stat h fs filePath of
                Inl e \<Rightarrow> Inl e
              | Inr fileStats \<Rightarrow>
                  Inr \<lparr>name = dname,
                       path = path_relative (cwd h) (OBSIDIAN_VAULT_PATH h) filePath,
                       isDirectory = isDir,
                       sizeBytes = st_size fileStats,
                       modified = toISOString h (st_mtime fileStats)\<rparr>)
           else
             Inr \<lparr>name = dname,
                  path = path_relative (cwd h) (OBSIDIAN_VAULT_PATH h) filePath,
                  isDirectory = isDir,
                  sizeBytes = 0,
                  modified = toISOString h now\<rparr>)"

definition getObsidianFiles :: "host \<Rightarrow> node \<Rightarrow> int \<Rightarrow> string \<Rightarrow> js_error + FileListResult" where
  "getObsidianFiles h fs now dirPathStr =
     (case listingPath h dirPathStr of
        Inl e \<Rightarrow> Inl e
      | Inr (normalizedDirPath, fullPath) \<Rightarrow>
          (case fs_readdir h fs fullPath of
             Inl e \<Rightarrow> Inl e
           | Inr dirents \<Rightarrow>
               (case collect (direntInfo h fs now fullPath) dirents of
                  Inl e \<Rightarrow> Inl e
                | Inr fileInfos \<Rightarrow> Inr \<lparr>files = fileInfos, currentPath = normalizedDirPath\<rparr>)))"

definition readObsidianFile :: "host \<Rightarrow> node \<Rightarrow> string \<Rightarrow> js_error + (string \<times> FileInfo)" where
  "readObsidianFile h fs filePath =
     (case filePathOf h filePath of
        Inl e \<Rightarrow> Inl e
      | Inr (normalizedPath, fullPath) \<Rightarrow>
          (case fs_stat h fs fullPath of
             Inl e \<Rightarrow> Inl e
           | Inr fileStats \<Rightarrow>
               if \<not> st_isFile fileStats
               then Inl (Error ''Not a file: Directory cannot be read as a file'')
               else
                 (case fs_readFile h fs fullPath of
                    Inl e \<Rightarrow> Inl e
                  | Inr text \<Rightarrow>
                      Inr (text,
                           \<lparr>name = path_basename fullPath,
                            path = normalizedPath,
                            isDirectory = False,
                            sizeBytes = st_size fileStats,
                            modified = toISOString h (st_mtime fileStats)\<rparr>))))"

text \<open>
  \<open>formatFileSize\<close>. \<open>toFixed(1)\<close> rounds the quotient to one decimal, the half upwards;
  the quotient of a size by a power of two is exact, so the rounding is on integers.
\<close>

definition toFixed1 :: "nat \<Rightarrow> nat \<Rightarrow> string" where
  "toFixed1 bytes unit =
     (let tenths = (20 * bytes + unit) div (2 * unit)
      in showNat (tenths div 10) @ ''.'' @ showNat (tenths mod 10))"

definition formatFileSize :: "nat \<Rightarrow> string" where
  "formatFileSize bytes =
     (if bytes < 1024 then showNat bytes @ '' B''
      else if bytes < 1024 * 1024 then toFixed1 bytes 1024 @ '' KB''
      else if bytes < 1024 * 1024 * 1024 then toFixed1 bytes (1024 * 1024) @ '' MB''
      else toFixed1 bytes (1024 * 1024 * 1024) @ '' GB'')"

section \<open>The server and its tools\<close>

text \<open>
  The state of the server is the vault's file system and \<open>resourceCache\<close>, the object
  that maps a resource URI to the last result stored under it: a listing or a read.
  A tool answers with one text block, which is the value of the model; a resource
  answers with the JSON of its result, of which the model keeps the result itself,
  or throws.
\<close>

datatype cached = CachedList FileListResult | CachedRead string FileInfo

record server =
  vault :: node
  resourceCache :: "string \<Rightarrow> cached option"

definition obsidian_list ::
  "host \<Rightarrow> int \<Rightarrow> server \<Rightarrow> string \<Rightarrow> string \<Rightarrow> (js_error + FileListResult) \<times> server" where
  "obsidian_list h now s href dirPath =
     (case getObsidianFiles h (vault s) now dirPath of
        Inl e \<Rightarrow> (Inl (Error (''Failed to list files: '' @ message e)), s)
      | Inr result \<Rightarrow>
          (Inr result, s\<lparr>resourceCache := (resourceCache s)(href \<mapsto> CachedList result)\<rparr>))"

text \<open>\<open>query.trim() !== ''\<close>: some code unit of the query is not white space.\<close>

definition isWhiteSpace :: "char \<Rightarrow> bool" where
  "isWhiteSpace c = ((of_char c :: nat) \<in> {9, 10, 11, 12, 13, 32, 160})"

definition trimmedEmpty :: "string \<Rightarrow> bool" where
  "trimmedEmpty q = list_all isWhiteSpace q"

definition searchLine :: "FileInfo \<Rightarrow> string" where
  "searchLine file =
     (if isDirectory file then ''[DIR]'' else ''[FILE]'') @ '' '' @ name file @ '' '' @
     (if isDirectory file then [] else ''('' @ formatFileSize (sizeBytes file) @ '')'') @
     [CHR 0x0A]"

definition obsidian_search :: "host \<Rightarrow> int \<Rightarrow> server \<Rightarrow> string \<Rightarrow> string \<Rightarrow> string \<times> server" where
  "obsidian_search h now s searchPath query =
     (case getObsidianFiles h (vault s) now searchPath of
        Inl e \<Rightarrow> (''Error searching files: '' @ message e, s)
      | Inr result \<Rightarrow>
          let shown = (if query \<noteq> [] \<and> \<not> trimmedEmpty query
                       then filter (\<lambda>file. includesStr (name file) query) (files result)
                       else files result)
          in (''Files in '' @ (if currentPath result = [] then ''root'' else currentPath result) @
              '' directory:'' @ [CHR 0x0A, CHR 0x0A] @
              (if shown = [] then ''No files found.'' else concat (map searchLine shown)),
              s))"

text \<open>
  \<open>obsidian-read\<close>, the resource. \<open>href\<close> is the URI of the request as the SDK hands it
  over and \<open>filePath\<close> the variable it took from that URI.
\<close>

definition obsidian_read ::
  "host \<Rightarrow> server \<Rightarrow> string \<Rightarrow> string \<Rightarrow> (js_error + (string \<times> FileInfo)) \<times> server" where
  "obsidian_read h s href filePath =
     (case readObsidianFile h (vault s) filePath of
        Inl e \<Rightarrow> (Inl (Error (''Failed to read file: '' @ message e)), s)
      | Inr (text, fileInfo) \<Rightarrow>
          (Inr (text, fileInfo),
           s\<lparr>resourceCache := (resourceCache s)(href \<mapsto> CachedRead text fileInfo)\<rparr>))"

definition viewText :: "host \<Rightarrow> string \<Rightarrow> FileInfo \<Rightarrow> string" where
  "viewText h text fileInfo =
     (let extension = toLowerCase (path_extname (name fileInfo));
          isMarkdown = (extension = ''.md'')
      in ''File: '' @ name fileInfo @ [CHR 0x0A] @
         ''Size: '' @ formatFileSize (sizeBytes fileInfo) @ [CHR 0x0A] @
         ''Last Modified: '' @ toLocaleString h (parseDate h (modified fileInfo)) @
           [CHR 0x0A, CHR 0x0A] @
         (if isMarkdown then ''Markdown Content'' else ''Content'') @ '':'' @
           [CHR 0x0A, CHR 0x0A] @ text)"

text \<open>
  \<open>obsidian-view\<close>. An entry that a listing left under the key has no \<open>fileInfo\<close>, and
  reading its \<open>name\<close> is the engine's \<open>TypeError\<close>, which the outer \<open>catch\<close> reports.
\<close>

definition obsidian_view :: "host \<Rightarrow> server \<Rightarrow> string \<Rightarrow> string \<times> server" where
  "obsidian_view h s filePath =
     (let resourceUri = ''obsidian://'' @ filePath @ ''/read''
      in case resourceCache s resourceUri of
           Some (CachedRead text fileInfo) \<Rightarrow> (viewText h text fileInfo, s)
         | Some (CachedList result) \<Rightarrow>
             (''Error viewing file: Cannot read properties of undefined (reading '' @
                [CHR 0x27] @ ''name'' @ [CHR 0x27] @ '')'', s)
         | None \<Rightarrow>
             (case readObsidianFile h (vault s) filePath of
                Inl err \<Rightarrow> (''Error reading file: '' @ message err, s)
              | Inr (text, fileInfo) \<Rightarrow>
                  (viewText h text fileInfo,
                   s\<lparr>resourceCache :=
                        (resourceCache s)(resourceUri \<mapsto> CachedRead text fileInfo)\<rparr>)))"

subsection \<open>Content search\<close>

record SearchMatch =
  line :: nat
  lineText :: string

record SearchResult =
  fileInfo :: FileInfo
  preview :: string
  matches :: "SearchMatch list"

definition searchableExtensions :: "string list" where
  "searchableExtensions = [''.md'', ''.txt'', ''.csv'', ''.json'', ''.yaml'', ''.yml'']"

definition searchable :: "FileInfo \<Rightarrow> bool" where
  "searchable file =
     (if isDirectory file then False
      else
        let ext = (case lastIndexOf (name file) CHR ''.'' of
                     None \<Rightarrow> []
                   | Some extIndex \<Rightarrow> toLowerCase (drop extIndex (name file)))
        in ext \<in> set searchableExtensions)"

text \<open>
  The lines of a text that contain the query: each line with its number, \<open>index + 1\<close>,
  and the flag \<open>matches\<close>; then those whose flag is set, without the flag.
\<close>

definition matchingLines :: "string \<Rightarrow> string \<Rightarrow> SearchMatch list" where
  "matchingLines lowerQuery content =
     map (\<lambda>(n, l, m). \<lparr>line = n, lineText = l\<rparr>)
       (filter (\<lambda>(n, l, m). m)
          (map (\<lambda>(index, l). (index + 1, l, includesStr (toLowerCase l) lowerQuery))
             (enumerate 0 (split_on (CHR 0x0A) content))))"

definition contentPreview :: "string \<Rightarrow> string" where
  "contentPreview content =
     (if length content > 200 then take 200 content @ ''...'' else content)"

text \<open>
  \<open>${err}\<close> in a template literal: the \<open>toString\<close> of an \<open>Error\<close>, its name and message.
\<close>

definition errorToString :: "js_error \<Rightarrow> string" where
  "errorToString err = ''Error: '' @ message err"

text \<open>
  The body of the loop for one file: what it pushes onto \<open>searchResults\<close>, and what its
  \<open>catch\<close> clause writes with \<open>console.error\<close>.
\<close>

definition searchFile ::
  "host \<Rightarrow> node \<Rightarrow> string \<Rightarrow> FileInfo \<Rightarrow> SearchResult list \<times> string list" where
  "searchFile h fs query file =
     (case readObsidianFile h fs (path file) of
        Inl err \<Rightarrow>
          ([], [''Error searching file '' @ path file @ '': '' @ errorToString err])
      | Inr (content, info) \<Rightarrow>
          let lowerContent = toLowerCase content;
              lowerQuery = toLowerCase query
          in if includesStr lowerContent lowerQuery then
               ([\<lparr>fileInfo = info,
                  preview = contentPreview content,
                  matches = take 5 (matchingLines lowerQuery content)\<rparr>], [])
             else ([], []))"

text \<open>The loop: the results pushed so far and the lines logged so far.\<close>

fun searchLoop ::
  "host \<Rightarrow> node \<Rightarrow> string \<Rightarrow> FileInfo list \<Rightarrow> SearchResult list \<times> string list \<Rightarrow>
   SearchResult list \<times> string list" where
  "searchLoop h fs query [] state = state"
| "searchLoop h fs query (file # rest) state =
     searchLoop h fs query rest
       (fst state @ fst (searchFile h fs query file),
        snd state @ snd (searchFile h fs query file))"

definition matchLine :: "SearchMatch \<Rightarrow> string" where
  "matchLine m =
     (let displayText = (if length (lineText m) > 100 then take 100 (lineText m) @ ''...'' else lineText m)
      in ''  Line '' @ showNat (line m) @ '': '' @ displayText @ [CHR 0x0A])"

definition resultBlock :: "SearchResult \<Rightarrow> string" where
  "resultBlock r =
     name (fileInfo r) @ '' ('' @ formatFileSize (sizeBytes (fileInfo r)) @ '')'' @ [CHR 0x0A] @
     (if matches r \<noteq> []
      then ''Matching lines:'' @ [CHR 0x0A] @ concat (map matchLine (matches r))
      else []) @
     [CHR 0x0A]"

definition searchReport :: "string \<Rightarrow> string \<Rightarrow> SearchResult list \<Rightarrow> string" where
  "searchReport query cur searchResults =
     ''Search results for '' @ [CHR 0x22] @ query @ [CHR 0x22] @ '' in '' @
     (if cur = [] then ''root'' else cur) @ '':'' @ [CHR 0x0A, CHR 0x0A] @
     (if searchResults = [] then ''No matches found in any files.''
      else concat (map resultBlock searchResults) @
           ''Found '' @ showNat (length searchResults) @ '' files containing '' @
           [CHR 0x22] @ query @ [CHR 0x22] @ ''.'' @ [CHR 0x0A])"

text \<open>
  The \<open>try\<close> block of \<open>obsidian-content-search\<close> up to the end of the loop: the current
  path, \<open>searchResults\<close> and the lines the loop has logged, or the error of the listing.
\<close>

definition contentSearchResults ::
  "host \<Rightarrow> int \<Rightarrow> node \<Rightarrow> string \<Rightarrow> string \<Rightarrow>
   js_error + (string \<times> SearchResult list \<times> string list)" where
  "contentSearchResults h now fs query searchPath =
     (case getObsidianFiles h fs now searchPath of
        Inl e \<Rightarrow> Inl e
      | Inr fileListResult \<Rightarrow>
          let filesToSearch = filter searchable (files fileListResult)
          in Inr (currentPath fileListResult, searchLoop h fs query filesToSearch ([], [])))"

definition obsidian_content_search ::
  "host \<Rightarrow> int \<Rightarrow> server \<Rightarrow> string \<Rightarrow> string \<Rightarrow> string \<times> server" where
  "obsidian_content_search h now s query searchPath =
     (case contentSearchResults h now (vault s) query searchPath of
        Inl e \<Rightarrow> (''Error searching file contents: '' @ message e, s)
      | Inr (cur, searchResults, logged) \<Rightarrow> (searchReport query cur searchResults, s))"

text \<open>What a call of \<open>obsidian-content-search\<close> writes to the console for unread files.\<close>

definition contentSearchLogged :: "host \<Rightarrow> int \<Rightarrow> server \<Rightarrow> string \<Rightarrow> string \<Rightarrow> string list" where
  "contentSearchLogged h now s query searchPath =
     (case contentSearchResults h now (vault s) query searchPath of
        Inl e \<Rightarrow> []
      | Inr (cur, searchResults, logged) \<Rightarrow> logged)"

subsection \<open>Creating and updating\<close>

text \<open>
  The \<open>try\<close> block of \<open>obsidian-create\<close>: the text it returns or the error it throws,
  and the file system it leaves. The failures of \<open>fs.access\<close> and of \<open>fs.mkdir\<close> are
  caught on the spot and only logged.
\<close>

definition createBody ::
  "host \<Rightarrow> int \<Rightarrow> node \<Rightarrow> string \<Rightarrow> string \<Rightarrow> bool \<Rightarrow> (js_error + string) \<times> node" where
  "createBody h now fs filePath content overwrite =
     (case filePathOf h filePath of
        Inl e \<Rightarrow> (Inl e, fs)
      | Inr (normalizedPath, fullPath) \<Rightarrow>
          if (case fs_access h fs fullPath of Inl e \<Rightarrow> False | Inr u \<Rightarrow> True) \<and> \<not> overwrite then
            (Inr (''File already exists: '' @ normalizedPath @
                  ''. Use overwrite=true to replace it.''), fs)
          else
            let dirPath = path_dirname fullPath;
                fs1 = (case fs_mkdir h fs dirPath of Inl e \<Rightarrow> fs | Inr fs' \<Rightarrow> fs')
            in (case fs_writeFile h fs1 fullPath content now of
                  Inl e \<Rightarrow> (Inl e, fs1)
                | Inr fs2 \<Rightarrow>
                    (case fs_stat h fs2 fullPath of
                       Inl e \<Rightarrow> (Inl e, fs2)
                     | Inr fileStats \<Rightarrow>
                         (Inr (''File created successfully: '' @ normalizedPath @ [CHR 0x0A] @
                               ''Size: '' @ formatFileSize (st_size fileStats) @ [CHR 0x0A] @
                               ''Created: '' @ toLocaleString h (st_birthtime fileStats)),
                          fs2))))"

definition obsidian_create ::
  "host \<Rightarrow> int \<Rightarrow> server \<Rightarrow> string \<Rightarrow> string \<Rightarrow> bool \<Rightarrow> string \<times> server" where
  "obsidian_create h now s filePath content overwrite =
     (case createBody h now (vault s) filePath content overwrite of
        (Inl e, fs') \<Rightarrow> (''Error creating file: '' @ message e, s\<lparr>vault := fs'\<rparr>)
      | (Inr answer, fs') \<Rightarrow> (answer, s\<lparr>vault := fs'\<rparr>))"

text \<open>
  The \<open>try\<close> block of \<open>obsidian-update\<close>. Whatever goes wrong in the inner \<open>try\<close>, the
  failing \<open>stat\<close> or the path not being a file, is rethrown as \<open>File not found\<close>.
\<close>

definition updateBody ::
  "host \<Rightarrow> int \<Rightarrow> node \<Rightarrow> string \<Rightarrow> string \<Rightarrow> bool \<Rightarrow> (js_error + string) \<times> node" where
  "updateBody h now fs filePath content appendMode =
     (case filePathOf h filePath of
        Inl e \<Rightarrow> (Inl e, fs)
      | Inr (normalizedPath, fullPath) \<Rightarrow>
          if \<not> (case fs_stat h fs fullPath of Inl e \<Rightarrow> False | Inr fileStats \<Rightarrow> st_isFile fileStats)
          then (Inl (Error (''File not found: '' @ normalizedPath)), fs)
          else
            (case (if appendMode
                   then (case fs_readFile h fs fullPath of
                           Inl e \<Rightarrow> Inl e
                         | Inr existingContent \<Rightarrow> Inr (existingContent @ [CHR 0x0A] @ content))
                   else Inr content) of
               Inl e \<Rightarrow> (Inl e, fs)
             | Inr finalContent \<Rightarrow>
                 (case fs_writeFile h fs fullPath finalContent now of
                    Inl e \<Rightarrow> (Inl e, fs)
                  | Inr fs' \<Rightarrow>
                      (case fs_stat h fs' fullPath of
                         Inl e \<Rightarrow> (Inl e, fs')
                       | Inr fileStats \<Rightarrow>
                           (Inr (''File updated successfully: '' @ normalizedPath @ [CHR 0x0A] @
                                 ''Size: '' @ formatFileSize (st_size fileStats) @ [CHR 0x0A] @
                                 ''Modified: '' @ toLocaleString h (st_mtime fileStats) @ [CHR 0x0A] @
                                 ''Operation: '' @ (if appendMode then ''Appended'' else ''Replaced'')),
                            fs')))))"

definition obsidian_update ::
  "host \<Rightarrow> int \<Rightarrow> server \<Rightarrow> string \<Rightarrow> string \<Rightarrow> bool \<Rightarrow> string \<times> server" where
  "obsidian_update h now s filePath content appendMode =
     (case updateBody h now (vault s) filePath content appendMode of
        (Inl e, fs') \<Rightarrow> (''Error updating file: '' @ message e, s\<lparr>vault := fs'\<rparr>)
      | (Inr answer, fs') \<Rightarrow> (answer, s\<lparr>vault := fs'\<rparr>))"

section \<open>The rate limit of the Brave search\<close>

text \<open>
  \<open>RATE_LIMIT\<close> and \<open>requestCount\<close>. The counters start at 0 and are only incremented or
  reset to 0, so they are natural numbers; \<open>Date.now()\<close> is a number of milliseconds.
\<close>

definition RATE_LIMIT_perSecond :: nat where
  "RATE_LIMIT_perSecond = 1"

definition RATE_LIMIT_perMonth :: nat where
  "RATE_LIMIT_perMonth = 15000"

record requestCount =
  second :: nat
  month :: nat
  lastReset :: int

definition checkRateLimit :: "int \<Rightarrow> requestCount \<Rightarrow> (js_error + unit) \<times> requestCount" where
  "checkRateLimit now rc =
     (let rc1 = (if now - lastReset rc > 1000 then rc\<lparr>second := 0, lastReset := now\<rparr> else rc)
      in if month rc1 \<ge> RATE_LIMIT_perMonth
         then (Inl (Error ''Monthly rate limit exceeded''), rc1)
         else (Inr (), rc1\<lparr>second := second rc1 + 1, month := month rc1 + 1\<rparr>))"

text \<open>
  A call of \<open>fetch\<close> is an input of the model: the response the service gives. The URL
  and the headers of the request do not enter any value the functions return.
\<close>

record 'a response =
  ok :: bool
  status :: string
  statusText :: string
  bodyText :: string
  json :: 'a

record WebResult =
  title :: string
  description :: string
  url :: string

record BraveWeb =
  webResults :: "WebResult list"
  locationIds :: "string option list"

text \<open>
  A place as \<open>formatLocalResults\<close> reads it. An absent field is \<open>None\<close>; the two numbers
  of the rating are kept in the form a template literal prints them. The descriptions
  are the own properties of the object the service sent.
\<close>

record BraveLocation =
  poiId :: string
  poiName :: string
  streetAddress :: "string option"
  addressLocality :: "string option"
  addressRegion :: "string option"
  postalCode :: "string option"
  phone :: "string option"
  ratingValue :: "string option"
  ratingCount :: "string option"
  openingHours :: "string list option"
  priceRange :: "string option"

type_synonym BravePoiResponse = "BraveLocation list"

type_synonym BraveDescription = "(string \<times> string) list"

definition apiError :: "'a response \<Rightarrow> js_error" where
  "apiError r =
     Error (''Brave API error: '' @ status r @ '' '' @ statusText r @ [CHR 0x0A] @ bodyText r)"

definition orElse :: "string option \<Rightarrow> string \<Rightarrow> string" where
  "orElse v d = (case v of None \<Rightarrow> d | Some x \<Rightarrow> if x = [] then d else x)"

definition formatWebResult :: "WebResult \<Rightarrow> string" where
  "formatWebResult r =
     ''Title: '' @ title r @ [CHR 0x0A] @ ''Description: '' @ description r @ [CHR 0x0A] @
     ''URL: '' @ url r"

definition performWebSearch ::
  "int \<Rightarrow> requestCount \<Rightarrow> BraveWeb response \<Rightarrow> (js_error + string) \<times> requestCount" where
  "performWebSearch now rc resp =
     (case checkRateLimit now rc of
        (Inl e, rc1) \<Rightarrow> (Inl e, rc1)
      | (Inr u, rc1) \<Rightarrow>
          if \<not> ok resp then (Inl (apiError resp), rc1)
          else (Inr (join_with [CHR 0x0A, CHR 0x0A] (map formatWebResult (webResults (json resp)))),
                rc1))"

definition getPoisData ::
  "requestCount \<Rightarrow> BravePoiResponse response \<Rightarrow> (js_error + BravePoiResponse) \<times> requestCount" where
  "getPoisData rc resp =
     (if month rc \<ge> RATE_LIMIT_perMonth
      then (Inl (Error ''Monthly rate limit exceeded''), rc)
      else
        let rc1 = rc\<lparr>month := month rc + 1\<rparr>
        in if \<not> ok resp then (Inl (apiError resp), rc1) else (Inr (json resp), rc1))"

definition getDescriptionsData ::
  "requestCount \<Rightarrow> BraveDescription response \<Rightarrow> (js_error + BraveDescription) \<times> requestCount" where
  "getDescriptionsData rc resp =
     (if month rc \<ge> RATE_LIMIT_perMonth
      then (Inl (Error ''Monthly rate limit exceeded''), rc)
      else
        let rc1 = rc\<lparr>month := month rc + 1\<rparr>
        in if \<not> ok resp then (Inl (apiError resp), rc1) else (Inr (json resp), rc1))"

text \<open>
  \<open>descData.descriptions[poi.id]\<close> in the template literal. A key the object does not
  own is looked up in \<open>Object.prototype\<close>: what is found there is a function, or the
  prototype itself for \<open>__proto__\<close>, and the template literal prints it as the engine
  of Node does. An empty or absent description gives the default text.
\<close>

definition inheritedText :: "string \<Rightarrow> string option" where
  "inheritedText key =
     (if key = ''__proto__'' then Some ''[object Object]''
      else if key = ''constructor'' then Some ''function Object() { [native code] }''
      else if key \<in> set [''__defineGetter__'', ''__defineSetter__'', ''hasOwnProperty'',
                          ''__lookupGetter__'', ''__lookupSetter__'', ''isPrototypeOf'',
                          ''propertyIsEnumerable'', ''toString'', ''valueOf'',
                          ''toLocaleString'']
      then Some (''function '' @ key @ ''() { [native code] }'')
      else None)"

definition descriptionText :: "BraveDescription \<Rightarrow> string \<Rightarrow> string" where
  "descriptionText descData key =
     (case map_of descData key of
        Some d \<Rightarrow> if d = [] then ''No description available'' else d
      | None \<Rightarrow>
          (case inheritedText key of
             Some t \<Rightarrow> t
           | None \<Rightarrow> ''No description available''))"

definition formatPoi :: "BraveDescription \<Rightarrow> BraveLocation \<Rightarrow> string" where
  "formatPoi descData poi =
     (let parts = filter (\<lambda>part. part \<noteq> [])
                    (map (\<lambda>v. case v of None \<Rightarrow> [] | Some x \<Rightarrow> x)
                       [streetAddress poi, addressLocality poi, addressRegion poi, postalCode poi]);
          address = (if join_with '', '' parts = [] then ''N/A'' else join_with '', '' parts);
          hours = join_with '', '' (case openingHours poi of None \<Rightarrow> [] | Some hs \<Rightarrow> hs)
      in ''Name: '' @ poiName poi @ [CHR 0x0A] @
         ''Address: '' @ address @ [CHR 0x0A] @
         ''Phone: '' @ orElse (phone poi) ''N/A'' @ [CHR 0x0A] @
         ''Rating: '' @ (case ratingValue poi of None \<Rightarrow> ''N/A'' | Some v \<Rightarrow> v) @
           '' ('' @ (case ratingCount poi of None \<Rightarrow> ''0'' | Some c \<Rightarrow> c) @ '' reviews)'' @
           [CHR 0x0A] @
         ''Price Range: '' @ orElse (priceRange poi) ''N/A'' @ [CHR 0x0A] @
         ''Hours: '' @ (if hours = [] then ''N/A'' else hours) @ [CHR 0x0A] @
         ''Description: '' @ descriptionText descData (poiId poi) @ [CHR 0x0A])"

definition formatLocalResults :: "BravePoiResponse \<Rightarrow> BraveDescription \<Rightarrow> string" where
  "formatLocalResults poisData descData =
     (let joined = join_with ([CHR 0x0A] @ ''---'' @ [CHR 0x0A]) (map (formatPoi descData) poisData)
      in if joined = [] then ''No local results found'' else joined)"

text \<open>
  \<open>performLocalSearch\<close>. \<open>now\<close> is the clock at its own \<open>checkRateLimit\<close> and \<open>later\<close>
  the clock when the fallback \<open>performWebSearch\<close> runs, after the pause; the four
  responses are those of the location query, of the fallback query, of the POI lookup
  and of the description lookup.
\<close>

definition performLocalSearch ::
  "int \<Rightarrow> int \<Rightarrow> requestCount \<Rightarrow> BraveWeb response \<Rightarrow> BraveWeb response \<Rightarrow>
   BravePoiResponse response \<Rightarrow> BraveDescription response \<Rightarrow> (js_error + string) \<times> requestCount" where
  "performLocalSearch now later rc webResponse fallbackResponse poisResponse descResponse =
     (case checkRateLimit now rc of
        (Inl e, rc1) \<Rightarrow> (Inl e, rc1)
      | (Inr u, rc1) \<Rightarrow>
          if \<not> ok webResponse then (Inl (apiError webResponse), rc1)
          else
            let ids = map the (filter (\<lambda>r. r \<noteq> None) (locationIds (json webResponse)))
            in if ids = [] then performWebSearch later rc1 fallbackResponse
               else
                 (case getPoisData rc1 poisResponse of
                    (Inl e, rc2) \<Rightarrow> (Inl e, rc2)
                  | (Inr poisData, rc2) \<Rightarrow>
                      (case getDescriptionsData rc2 descResponse of
                         (Inl e, rc3) \<Rightarrow> (Inl e, rc3)
                       | (Inr descData, rc3) \<Rightarrow>
                           (Inr (formatLocalResults poisData descData), rc3))))"

record toolResult =
  resultText :: string
  isError :: bool

text \<open>\<open>brave_local_search\<close>; \<open>apiKey\<close> is \<open>BRAVE_API_KEY\<close>, empty when it is not set.\<close>

definition brave_local_search ::
  "string \<Rightarrow> int \<Rightarrow> int \<Rightarrow> requestCount \<Rightarrow> BraveWeb response \<Rightarrow> BraveWeb response \<Rightarrow>
   BravePoiResponse response \<Rightarrow> BraveDescription response \<Rightarrow> toolResult \<times> requestCount" where
  "brave_local_search apiKey now later rc webResponse fallbackResponse poisResponse descResponse =
     (if apiKey = []
      then (\<lparr>resultText = ''Error: BRAVE_API_KEY environment variable is not set'',
             isError = True\<rparr>, rc)
      else
        (case performLocalSearch now later rc webResponse fallbackResponse poisResponse descResponse of
           (Inl e, rc') \<Rightarrow> (\<lparr>resultText = ''Error: '' @ message e, isError = True\<rparr>, rc')
         | (Inr results, rc') \<Rightarrow> (\<lparr>resultText = results, isError = False\<rparr>, rc')))"

section \<open>Example configurations\<close>

text \<open>
  A host with the vault at a given root, and a small disk: the vault \<open>/vault\<close>, a
  directory \<open>/vault-private\<close> beside it, and the directories \<open>/a/b\<close> and \<open>/a/bc\<close>.
\<close>

definition hostAt :: "string \<Rightarrow> host" where
  "hostAt root =
     \<lparr>OBSIDIAN_VAULT_PATH = root,
      cwd = ''/home/user'',
      toISOString = (\<lambda>t. ''T'' @ showNat (nat t)),
      toLocaleString = (\<lambda>t. ''L'' @ showNat (nat t)),
      parseDate = (\<lambda>iso. int (length iso))\<rparr>"

definition exampleDisk :: node where
  "exampleDisk =
     Dir [(''vault'',
           Dir [(''a.md'', File ''hello'' 10 5),
                (''sock.md'', Special 7),
                (''b.txt'', File (''Say Hello'' @ [CHR 0x0A] @ ''twice: hello, HELLO'') 20 6),
                (''c.png'', File ''hello'' 30 8),
                (''sub'',
                 Dir [(''todo.md'',
                       File (''TODO one'' @ [CHR 0x0A] @ ''nothing'' @ [CHR 0x0A] @
                             ''todo two'' @ [CHR 0x0A] @ ''ToDo three'' @ [CHR 0x0A] @
                             [CHR 0x0A] @ ''my todo four'' @ [CHR 0x0A] @
                             ''todo five'' @ [CHR 0x0A] @ ''todo six'') 60 12)])]),
          (''vault-private'', Dir [(''secret.md'', File ''top secret'' 40 9)]),
          (''a'', Dir [(''b'', Dir []), (''bc'', Dir [(''x.md'', File ''beside'' 50 11)])])]"

definition exampleServer :: server where
  "exampleServer = \<lparr>vault = exampleDisk, resourceCache = (\<lambda>key. None)\<rparr>"



text \<open>The entries of \<open>/vault\<close> on the example disk that the content search reads.\<close>

definition entryA :: FileInfo where
  "entryA = \<lparr>name = ''a.md'', path = ''a.md'', isDirectory = False, sizeBytes = 5,
             modified = ''T10''\<rparr>"

definition entrySock :: FileInfo where
  "entrySock = \<lparr>name = ''sock.md'', path = ''sock.md'', isDirectory = False, sizeBytes = 0,
                modified = ''T7''\<rparr>"

definition entryB :: FileInfo where
  "entryB = \<lparr>name = ''b.txt'', path = ''b.txt'', isDirectory = False, sizeBytes = 29,
             modified = ''T20''\<rparr>"


text \<open>A sequence of tool calls, run one after the other on the server.\<close>

datatype toolCall =
    CallSearch int string string
  | CallView string
  | CallContentSearch int string string
  | CallCreate int string string bool
  | CallUpdate int string string bool

fun callTool :: "host \<Rightarrow> server \<Rightarrow> toolCall \<Rightarrow> string \<times> server" where
  "callTool h s (CallSearch now searchPath query) = obsidian_search h now s searchPath query"
| "callTool h s (CallView filePath) = obsidian_view h s filePath"
| "callTool h s (CallContentSearch now query searchPath) =
     obsidian_content_search h now s query searchPath"
| "callTool h s (CallCreate now filePath content overwrite) =
     obsidian_create h now s filePath content overwrite"
| "callTool h s (CallUpdate now filePath content appendMode) =
     obsidian_update h now s filePath content appendMode"

definition runCalls :: "host \<Rightarrow> server \<Rightarrow> toolCall list \<Rightarrow> server" where
  "runCalls h s calls = foldl (\<lambda>s' c. snd (callTool h s' c)) s calls"

text \<open>Responses of the search service for one place, and counters one short of the budget.\<close>

definition locationsFound :: "BraveWeb response" where
  "locationsFound =
     \<lparr>ok = True, status = ''200'', statusText = ''OK'', bodyText = [],
      json = \<lparr>webResults = [], locationIds = [Some ''loc1'']\<rparr>\<rparr>"

definition poisFound :: "BravePoiResponse response" where
  "poisFound =
     \<lparr>ok = True, status = ''200'', statusText = ''OK'', bodyText = [],
      json = [\<lparr>poiId = ''loc1'', poiName = ''Cafe'', streetAddress = Some ''1 Main St'',
               addressLocality = None, addressRegion = None, postalCode = None,
               phone = None, ratingValue = Some ''4.5'', ratingCount = Some ''12'',
               openingHours = None, priceRange = None\<rparr>]\<rparr>"

definition descriptionsFound :: "BraveDescription response" where
  "descriptionsFound =
     \<lparr>ok = True, status = ''200'', statusText = ''OK'', bodyText = [],
      json = [(''loc1'', ''A cafe'')]\<rparr>"

definition almostSpent :: requestCount where
  "almostSpent = \<lparr>second = 0, month = 14999, lastReset = 0\<rparr>"

definition freshCount :: requestCount where
  "freshCount = \<lparr>second = 4, month = 100, lastReset = 0\<rparr>"

definition exampleListing :: FileListResult where
  "exampleListing =
     \<lparr>files = [entryA, entrySock, entryB,
               \<lparr>name = ''c.png'', path = ''c.png'', isDirectory = False, sizeBytes = 5,
                modified = ''T30''\<rparr>,
               \<lparr>name = ''sub'', path = ''sub'', isDirectory = True, sizeBytes = 0,
                modified = ''T0''\<rparr>],
      currentPath = []\<rparr>"


definition staleCalls :: "toolCall list" where
  "staleCalls =
     [CallUpdate 99 ''a.md'' ''changed'' False,
      CallView ''b.txt'',
      CallCreate 100 ''a.md'' ''again'' True]"

section \<open>Properties of the sandbox check\<close>

lemmas path_eval =
  stripSlashes_def path_join_def path_normalize_def isAbsolute_def normalizeString_def
  normalizeSegments_def normStep_def startsWith_def segments_def resolveSegments_def

lemmas fs_eval =
  fs_stat_def fs_readFile_def fs_readdir_def fs_access_def fs_writeFile_def fs_mkdir_def

lemma char_eq_char_of: "(c = char_of n) \<longleftrightarrow> take_bit 8 n = of_char c"
  by (metis char_of_eq_iff)

lemmas lower_eval =
  toLowerCase_def lowerChar_def char_of_eq_iff char_eq_char_of

lemma startsWith_append: "startsWith (p @ s) p"
  by (simp add: startsWith_def)

text \<open>
  What the check does give: a path that is returned begins, as a string, with the root,
  and the only error of the resolution is the denial.
\<close>

lemma filePathOf_prefix_or_denied:
  "filePathOf h p = Inl (Error ''Access denied: Path outside of allowed directory'') \<or>
   (\<exists>full. filePathOf h p = Inr (stripSlashes p, full) \<and>
      startsWith full (OBSIDIAN_VAULT_PATH h))"
  by (simp add: filePathOf_def Let_def)

lemma listingPath_prefix_or_denied:
  "(\<exists>e. listingPath h p = Inl e \<and> accessDenied e) \<or>
   (\<exists>n full. listingPath h p = Inr (n, full) \<and> startsWith full (OBSIDIAN_VAULT_PATH h))"
  by (simp add: listingPath_def Let_def accessDenied_def accessDeniedDetails_def startsWith_def)

lemma escape_to_etc_denied:
  "filePathOf (hostAt ''/vault'') ''../../etc/passwd'' =
     Inl (Error ''Access denied: Path outside of allowed directory'')"
  by (simp add: filePathOf_def hostAt_def Let_def path_eval)

text \<open>
  Claim C1. Resolution of a candidate with \<open>..\<close> segments returns a path that begins
  with the root or is denied, and never returns a path outside the root directory.
  The code misses the second half: with the vault at \<open>/vault\<close>, the candidate
  \<open>../vault-private/secret.md\<close> resolves to \<open>/vault-private/secret.md\<close>, which begins
  with the string \<open>/vault\<close>, passes the check, lies outside the directory \<open>/vault\<close>,
  and is read.
\<close>

theorem resolution_returns_path_outside_root:
  "filePathOf (hostAt ''/vault'') ''../vault-private/secret.md'' =
     Inr (''../vault-private/secret.md'', ''/vault-private/secret.md'') \<and>
   listingPath (hostAt ''/vault'') ''../vault-private'' =
     Inr (''../vault-private'', ''/vault-private'') \<and>
   startsWith ''/vault-private/secret.md'' ''/vault'' \<and>
   \<not> insideDirectory ''/vault'' ''/vault-private/secret.md'' \<and>
   \<not> insideDirectory ''/vault'' ''/vault-private'' \<and>
   map_sum id fst (readObsidianFile (hostAt ''/vault'') exampleDisk ''../vault-private/secret.md'') =
     Inr ''top secret''"
  by (simp add: filePathOf_def listingPath_def readObsidianFile_def hostAt_def exampleDisk_def
      Let_def path_eval insideDirectory_def fs_stat_def fs_readFile_def)

text \<open>
  Claim C2. The check compares raw string prefixes and appends no separator to the
  root, so there are a root and a candidate (\<open>/a/b\<close> and \<open>../bc\<close>) for which both
  resolutions succeed although the resolved path, \<open>/a/bc\<close>, is a sibling of the root
  and not contained in it.
\<close>

theorem prefix_check_admits_sibling:
  "\<exists>root candidate resolved.
     filePathOf (hostAt root) candidate = Inr (candidate, resolved) \<and>
     listingPath (hostAt root) candidate = Inr (candidate, resolved) \<and>
     root = ''/a/b'' \<and> resolved = ''/a/bc'' \<and>
     path_dirname resolved = path_dirname root \<and>
     resolved \<noteq> root \<and>
     \<not> insideDirectory root resolved"
proof -
  have "filePathOf (hostAt ''/a/b'') ''../bc'' = Inr (''../bc'', ''/a/bc'')"
    by (simp add: filePathOf_def hostAt_def Let_def path_eval)
  moreover have "listingPath (hostAt ''/a/b'') ''../bc'' = Inr (''../bc'', ''/a/bc'')"
    by (simp add: listingPath_def hostAt_def Let_def path_eval)
  moreover have "path_dirname ''/a/bc'' = path_dirname ''/a/b''"
    by (simp add: path_dirname_def isAbsolute_def)
  moreover have "\<not> insideDirectory ''/a/b'' ''/a/bc''"
    by (simp add: insideDirectory_def segments_def)
  ultimately show ?thesis
    by blast
qed

section \<open>Properties of the rate limit\<close>

text \<open>
  Claim C3. \<open>checkRateLimit\<close> fails with \<open>Monthly rate limit exceeded\<close> exactly when the
  monthly count has reached 15000; the per-second count has no part in the outcome; on
  the failure no counter is incremented; when more than 1000 ms have passed since the
  last reset, the per-second count restarts from 0 and the reset time becomes now,
  before the monthly test; and an allowed call adds one to both counters.
\<close>

theorem checkRateLimit_blocks_on_month_only:
  "fst (checkRateLimit now rc) =
     (if 15000 \<le> month rc then Inl (Error ''Monthly rate limit exceeded'') else Inr ()) \<and>
   fst (checkRateLimit now (rc\<lparr>second := k\<rparr>)) = fst (checkRateLimit now rc) \<and>
   month (snd (checkRateLimit now rc)) =
     (if 15000 \<le> month rc then month rc else month rc + 1) \<and>
   second (snd (checkRateLimit now rc)) =
     (if now - lastReset rc > 1000 then 0 else second rc) +
     (if 15000 \<le> month rc then 0 else 1) \<and>
   lastReset (snd (checkRateLimit now rc)) =
     (if now - lastReset rc > 1000 then now else lastReset rc)"
  by (simp add: checkRateLimit_def Let_def RATE_LIMIT_perMonth_def)

section \<open>What a denied call tells the caller\<close>

text \<open>
  The tools that resolve the path themselves or in \<open>readObsidianFile\<close> answer a denied
  resolution with their prefix and one fixed sentence.
\<close>

lemma denied_file_tools_text:
  assumes "filePathOf h p = Inl e"
      and "resourceCache s (''obsidian://'' @ p @ ''/read'') = None"
  shows "fst (obsidian_create h now s p content overwrite) =
           ''Error creating file: Access denied: Path outside of allowed directory'' \<and>
         fst (obsidian_update h now s p content appendMode) =
           ''Error updating file: Access denied: Path outside of allowed directory'' \<and>
         fst (obsidian_view h s p) =
           ''Error reading file: Access denied: Path outside of allowed directory''"
proof -
  from assms(1) have e: "e = Error ''Access denied: Path outside of allowed directory''"
    by (auto simp: filePathOf_def Let_def split: if_splits)
  have 1: "fst (obsidian_create h now s p content overwrite) =
           ''Error creating file: Access denied: Path outside of allowed directory''"
    using assms(1) e by (simp add: obsidian_create_def createBody_def)
  have 2: "fst (obsidian_update h now s p content appendMode) =
           ''Error updating file: Access denied: Path outside of allowed directory''"
    using assms(1) e by (simp add: obsidian_update_def updateBody_def)
  have 3: "fst (obsidian_view h s p) =
              ''Error reading file: Access denied: Path outside of allowed directory''"
    using assms e by (simp add: obsidian_view_def readObsidianFile_def Let_def)
  from 1 2 3 show ?thesis by blast
qed

text \<open>
  Claim C4. A tool call whose path resolution is denied tells the caller no more than
  that access is denied: the root, the candidate, the resolved path and the working
  directory, which the error carries, stay out of the text the caller gets.
  \<open>obsidian-search\<close> breaks this. \<open>getObsidianFiles\<close> puts the whole context into the
  message of the error it throws, and the tool returns that message: with the vault at
  \<open>/vault\<close>, the text returned for the path \<open>../etc\<close> holds the vault root, the
  candidate, the resolved path and the working directory.
\<close>

theorem search_denial_exposes_diagnostics:
  "(\<exists>e. listingPath (hostAt ''/vault'') ''../etc'' = Inl e \<and> accessDenied e) \<and>
   includesStr (fst (obsidian_search (hostAt ''/vault'') 0 exampleServer ''../etc'' []))
     ''- OBSIDIAN_VAULT_PATH: /vault'' \<and>
   includesStr (fst (obsidian_search (hostAt ''/vault'') 0 exampleServer ''../etc'' []))
     ''- dirPathStr: ../etc'' \<and>
   includesStr (fst (obsidian_search (hostAt ''/vault'') 0 exampleServer ''../etc'' []))
     ''- fullPath: /etc'' \<and>
   includesStr (fst (obsidian_search (hostAt ''/vault'') 0 exampleServer ''../etc'' []))
     ''- process.cwd(): /home/user''"
  by (simp add: obsidian_search_def getObsidianFiles_def listingPath_def hostAt_def Let_def
      path_eval accessDeniedDetails_def accessDenied_def)

section \<open>Creating and updating a file\<close>

lemma writeNode_existing_file:
  "lookup t segs = Inr (File c m b) \<Longrightarrow>
   \<exists>t'. writeNode t segs new now = Inr t' \<and> lookup t' segs = Inr (File new now b)"
proof (induction segs arbitrary: t)
  case Nil
  then show ?case by simp
next
  case (Cons s ss)
  show ?case
  proof (cases t)
    case (Dir es)
    with Cons.prems obtain ch where ch: "map_of es s = Some ch" "lookup ch ss = Inr (File c m b)"
      by (auto split: option.splits)
    from Cons.IH [OF ch(2)] obtain ch' where
      ch': "writeNode ch ss new now = Inr ch'" "lookup ch' ss = Inr (File new now b)"
      by blast
    with Dir ch show ?thesis
      by (simp add: update_conv')
  next
    case (File c' m' b')
    with Cons.prems show ?thesis by simp
  next
    case (Special m')
    with Cons.prems show ?thesis by simp
  qed
qed

text \<open>
  Claim C5. When the path of \<open>obsidian-create\<close> resolves to an existing file and
  \<open>overwrite\<close> is false, nothing is written: the server is left as it was, the content
  of the file is unchanged, and the answer is the \<open>File already exists\<close> text, which
  the handler returns (it is not thrown) and which is neither the success text nor an
  error text.
\<close>

theorem create_existing_without_overwrite:
  assumes res: "filePathOf h filePath = Inr (normalizedPath, fullPath)"
      and ex: "lookup (vault s) (resolveSegments (cwd h) fullPath) = Inr (File c m b)"
  shows "obsidian_create h now s filePath content False =
           (''File already exists: '' @ normalizedPath @ ''. Use overwrite=true to replace it.'', s) \<and>
         createBody h now (vault s) filePath content False =
           (Inr (''File already exists: '' @ normalizedPath @ ''. Use overwrite=true to replace it.''),
            vault s) \<and>
         fs_readFile h (vault (snd (obsidian_create h now s filePath content False))) fullPath =
           Inr c \<and>
         \<not> startsWith (fst (obsidian_create h now s filePath content False))
              ''File created successfully: '' \<and>
         \<not> startsWith (fst (obsidian_create h now s filePath content False))
              ''Error creating file: ''"
proof -
  have body: "createBody h now (vault s) filePath content False =
           (Inr (''File already exists: '' @ normalizedPath @ ''. Use overwrite=true to replace it.''),
            vault s)"
    using res ex by (simp add: createBody_def fs_access_def)
  then have whole: "obsidian_create h now s filePath content False =
           (''File already exists: '' @ normalizedPath @ ''. Use overwrite=true to replace it.'', s)"
    by (simp add: obsidian_create_def)
  have rd: "fs_readFile h (vault s) fullPath = Inr c"
    using ex by (simp add: fs_readFile_def)
  show ?thesis
    using body whole rd by (simp add: startsWith_def)
qed

theorem create_existing_without_overwrite_witness:
  "filePathOf (hostAt ''/vault'') ''/a.md'' = Inr (''a.md'', ''/vault/a.md'') \<and>
   lookup (vault exampleServer) (resolveSegments (cwd (hostAt ''/vault'')) ''/vault/a.md'') =
     Inr (File ''hello'' 10 5) \<and>
   obsidian_create (hostAt ''/vault'') 99 exampleServer ''/a.md'' ''other'' False =
     (''File already exists: a.md. Use overwrite=true to replace it.'', exampleServer) \<and>
   fs_readFile (hostAt ''/vault'')
     (vault (snd (obsidian_create (hostAt ''/vault'') 99 exampleServer ''/a.md'' ''other'' False)))
     ''/vault/a.md'' = Inr ''hello''"
proof -
  have a: "filePathOf (hostAt ''/vault'') ''/a.md'' = Inr (''a.md'', ''/vault/a.md'')"
    by (simp add: filePathOf_def hostAt_def Let_def path_eval)
  have b: "lookup (vault exampleServer) (resolveSegments (cwd (hostAt ''/vault'')) ''/vault/a.md'') =
     Inr (File ''hello'' 10 5)"
    by (simp add: exampleServer_def exampleDisk_def hostAt_def path_eval)
  from create_existing_without_overwrite [OF a b, of 99 "''other''"] a b show ?thesis
    by (elim conjE) simp
qed

text \<open>
  Claim C6. When the path of \<open>obsidian-update\<close> resolves to an existing file with
  content \<open>c\<close>, the call with \<open>append\<close> writes \<open>c\<close>, one newline and the new content, and
  a read that follows returns exactly that; without \<open>append\<close> the file holds the new
  content alone. Both calls answer with the success text.
\<close>

theorem update_append_and_replace:
  assumes res: "filePathOf h filePath = Inr (normalizedPath, fullPath)"
      and ex: "lookup (vault s) (resolveSegments (cwd h) fullPath) = Inr (File c m b)"
  shows "lookup (vault (snd (obsidian_update h now s filePath n True)))
           (resolveSegments (cwd h) fullPath) = Inr (File (c @ [CHR 0x0A] @ n) now b) \<and>
         readObsidianFile h (vault (snd (obsidian_update h now s filePath n True))) filePath =
           Inr (c @ [CHR 0x0A] @ n,
                \<lparr>name = path_basename fullPath, path = normalizedPath, isDirectory = False,
                 sizeBytes = utf8Length (c @ [CHR 0x0A] @ n), modified = toISOString h now\<rparr>) \<and>
         startsWith (fst (obsidian_update h now s filePath n True))
           ''File updated successfully: '' \<and>
         lookup (vault (snd (obsidian_update h now s filePath n False)))
           (resolveSegments (cwd h) fullPath) = Inr (File n now b) \<and>
         readObsidianFile h (vault (snd (obsidian_update h now s filePath n False))) filePath =
           Inr (n,
                \<lparr>name = path_basename fullPath, path = normalizedPath, isDirectory = False,
                 sizeBytes = utf8Length n, modified = toISOString h now\<rparr>) \<and>
         startsWith (fst (obsidian_update h now s filePath n False))
           ''File updated successfully: ''"
proof -
  have st: "fs_stat h (vault s) fullPath = Inr (statNode (File c m b))"
    using ex by (simp add: fs_stat_def)
  have rd: "fs_readFile h (vault s) fullPath = Inr c"
    using ex by (simp add: fs_readFile_def)
  have upd: "lookup (vault (snd (obsidian_update h now s filePath n a)))
         (resolveSegments (cwd h) fullPath) =
         Inr (File (if a then c @ [CHR 0x0A] @ n else n) now b) \<and>
       startsWith (fst (obsidian_update h now s filePath n a)) ''File updated successfully: ''"
    for a
  proof -
    from writeNode_existing_file [OF ex, of "if a then c @ [CHR 0x0A] @ n else n" now]
    obtain t' where t': "writeNode (vault s) (resolveSegments (cwd h) fullPath)
          (if a then c @ [CHR 0x0A] @ n else n) now = Inr t'"
       "lookup t' (resolveSegments (cwd h) fullPath) =
          Inr (File (if a then c @ [CHR 0x0A] @ n else n) now b)"
      by blast
    then have "fs_stat h t' fullPath =
        Inr (statNode (File (if a then c @ [CHR 0x0A] @ n else n) now b))"
      by (simp add: fs_stat_def)
    with t' res st rd show ?thesis
      by (cases a)
        (simp_all add: obsidian_update_def updateBody_def fs_writeFile_def startsWith_def)
  qed
  have after: "lookup t' (resolveSegments (cwd h) fullPath) = Inr (File x now b) \<Longrightarrow>
     readObsidianFile h t' filePath =
       Inr (x, \<lparr>name = path_basename fullPath, path = normalizedPath, isDirectory = False,
                sizeBytes = utf8Length x, modified = toISOString h now\<rparr>)" for t' x
    using res by (simp add: readObsidianFile_def fs_stat_def fs_readFile_def)
  from upd [of True] upd [of False] after [of _ "c @ [CHR 0x0A] @ n"] after [of _ n]
  show ?thesis
    by simp
qed

theorem update_append_and_replace_witness:
  "filePathOf (hostAt ''/vault'') ''/a.md'' = Inr (''a.md'', ''/vault/a.md'') \<and>
   lookup (vault exampleServer) (resolveSegments (cwd (hostAt ''/vault'')) ''/vault/a.md'') =
     Inr (File ''hello'' 10 5) \<and>
   map_sum id fst
     (readObsidianFile (hostAt ''/vault'')
        (vault (snd (obsidian_update (hostAt ''/vault'') 99 exampleServer ''/a.md'' ''world'' True)))
        ''/a.md'') = Inr (''hello'' @ [CHR 0x0A] @ ''world'') \<and>
   map_sum id fst
     (readObsidianFile (hostAt ''/vault'')
        (vault (snd (obsidian_update (hostAt ''/vault'') 99 exampleServer ''/a.md'' ''world'' False)))
        ''/a.md'') = Inr ''world''"
proof -
  have a: "filePathOf (hostAt ''/vault'') ''/a.md'' = Inr (''a.md'', ''/vault/a.md'')"
    by (simp add: filePathOf_def hostAt_def Let_def path_eval)
  have b: "lookup (vault exampleServer) (resolveSegments (cwd (hostAt ''/vault'')) ''/vault/a.md'') =
     Inr (File ''hello'' 10 5)"
    by (simp add: exampleServer_def exampleDisk_def hostAt_def path_eval)
  from update_append_and_replace [OF a b, of 99 "''world''"] a b show ?thesis
    by (elim conjE) simp
qed

section \<open>Properties of the content search\<close>

text \<open>\<open>includes\<close> says that the one string lies somewhere inside the other.\<close>

lemma includesStr_empty: "includesStr s []"
  by (cases s) (simp_all add: startsWith_def)

lemma includesStr_iff: "includesStr s q \<longleftrightarrow> (\<exists>a c. s = a @ q @ c)"
proof (induction s)
  case Nil
  then show ?case by simp
next
  case (Cons x s)
  show ?case
  proof
    assume "includesStr (x # s) q"
    then consider "startsWith (x # s) q" | "includesStr s q" by auto
    then show "\<exists>a c. x # s = a @ q @ c"
    proof cases
      case 1
      then have "x # s = [] @ q @ drop (length q) (x # s)"
        unfolding startsWith_def by (metis append_Nil append_take_drop_id)
      then show ?thesis by blast
    next
      case 2
      with Cons.IH obtain a c where "s = a @ q @ c" by blast
      then have "x # s = (x # a) @ q @ c" by simp
      then show ?thesis by blast
    qed
  next
    assume "\<exists>a c. x # s = a @ q @ c"
    then obtain a c where ac: "x # s = a @ q @ c" by blast
    show "includesStr (x # s) q"
    proof (cases a)
      case Nil
      with ac have "startsWith (x # s) q" by (simp add: startsWith_def)
      then show ?thesis by simp
    next
      case (Cons y a')
      with ac have "s = a' @ q @ c" by simp
      with Cons.IH have "includesStr s q" by blast
      then show ?thesis by simp
    qed
  qed
qed

lemma includesStr_middle: "includesStr (a @ q @ c) q"
  unfolding includesStr_iff by blast

lemma includesStr_trans: "includesStr s t \<Longrightarrow> includesStr t u \<Longrightarrow> includesStr s u"
  unfolding includesStr_iff by (metis append.assoc)

lemma includesStr_concat: "x \<in> set xs \<Longrightarrow> includesStr (concat (map f xs)) (f x)"
proof -
  assume "x \<in> set xs"
  then obtain ys zs where "xs = ys @ x # zs" by (auto simp: in_set_conv_decomp)
  then have "concat (map f xs) = concat (map f ys) @ f x @ concat (map f zs)" by simp
  then show ?thesis by (simp only: includesStr_middle)
qed

lemma report_shows_block:
  "r \<in> set rs \<Longrightarrow> includesStr (searchReport q cur rs) (resultBlock r)"
proof -
  assume r: "r \<in> set rs"
  then have ne: "rs \<noteq> []" by auto
  from r obtain a c where "concat (map resultBlock rs) = a @ resultBlock r @ c"
    using includesStr_concat [of r rs resultBlock] unfolding includesStr_iff by blast
  then have "searchReport q cur rs =
     (''Search results for '' @ [CHR 0x22] @ q @ [CHR 0x22] @ '' in '' @
     (if cur = [] then ''root'' else cur) @ '':'' @ [CHR 0x0A, CHR 0x0A] @ a) @ resultBlock r @
     (c @ ''Found '' @ showNat (length rs) @ '' files containing '' @
           [CHR 0x22] @ q @ [CHR 0x22] @ ''.'' @ [CHR 0x0A])"
    using ne by (simp add: searchReport_def)
  then show ?thesis
    by (simp only: includesStr_middle)
qed

lemma block_shows_match:
  "m \<in> set (matches r) \<Longrightarrow> includesStr (resultBlock r) (matchLine m)"
proof -
  assume m: "m \<in> set (matches r)"
  then have ne: "matches r \<noteq> []" by auto
  from m obtain a c where "concat (map matchLine (matches r)) = a @ matchLine m @ c"
    using includesStr_concat [of m "matches r" matchLine] unfolding includesStr_iff by blast
  then have "resultBlock r =
     (name (fileInfo r) @ '' ('' @ formatFileSize (sizeBytes (fileInfo r)) @ '')'' @ [CHR 0x0A] @
      ''Matching lines:'' @ [CHR 0x0A] @ a) @ matchLine m @ (c @ [CHR 0x0A])"
    using ne by (simp add: resultBlock_def)
  then show ?thesis
    by (simp only: includesStr_middle)
qed

lemma report_shows_match:
  "r \<in> set rs \<Longrightarrow> m \<in> set (matches r) \<Longrightarrow> includesStr (searchReport q cur rs) (matchLine m)"
  by (blast intro: includesStr_trans report_shows_block block_shows_match)

lemma searchLoop_acc:
  "searchLoop h fs q fl st =
     (fst st @ concat (map (\<lambda>f. fst (searchFile h fs q f)) fl),
      snd st @ concat (map (\<lambda>f. snd (searchFile h fs q f)) fl))"
  by (induction fl arbitrary: st) simp_all







text \<open>
  The case of a letter is ignored outside ASCII too: the query \<open>caf\<close> with the code
  unit \<open>0xE9\<close> after it is found in a text that has \<open>Caf\<close> followed by \<open>0xC9\<close>.
  The multiplication sign \<open>0xD7\<close> is left as it is.
\<close>

lemma toLowerCase_latin1:
  "includesStr (toLowerCase (''Caf'' @ [CHR 0xC9] @ '' au lait'')) (toLowerCase (''caf'' @ [CHR 0xE9])) \<and>
   toLowerCase [CHR 0xC9, CHR 0xD7, CHR 0xDE] = [CHR 0xE9, CHR 0xD7, CHR 0xFE]"
  by (simp add: lower_eval startsWith_def)





text \<open>
  Claim C8. When the read of one of the candidate files throws, the error is caught
  inside the loop and written to the console; the file adds nothing, the loop goes on,
  and the results are those of the other candidates. The tool does not fail: it
  returns the report, and the report holds the block of every one of those results
  and the line of every match in it.
\<close>

theorem content_search_survives_failed_read:
  assumes listing: "getObsidianFiles h (vault s) now searchPath = Inr listing"
      and cands: "filter searchable (files listing) = before @ bad # after"
      and bad: "readObsidianFile h (vault s) (path bad) = Inl err"
  shows "searchFile h (vault s) query bad =
           ([], [''Error searching file '' @ path bad @ '': Error: '' @ message err]) \<and>
         fst (searchLoop h (vault s) query (before @ bad # after) ([], [])) =
           concat (map (\<lambda>f. fst (searchFile h (vault s) query f)) (before @ after)) \<and>
         obsidian_content_search h now s query searchPath =
           (searchReport query (currentPath listing)
              (concat (map (\<lambda>f. fst (searchFile h (vault s) query f)) (before @ after))), s) \<and>
         (\<forall>r \<in> set (concat (map (\<lambda>f. fst (searchFile h (vault s) query f)) (before @ after))).
            includesStr (fst (obsidian_content_search h now s query searchPath)) (resultBlock r) \<and>
            (\<forall>m \<in> set (matches r).
               includesStr (fst (obsidian_content_search h now s query searchPath))
                 (matchLine m))) \<and>
         startsWith (fst (obsidian_content_search h now s query searchPath))
           ''Search results for '' \<and>
         (''Error searching file '' @ path bad @ '': Error: '' @ message err)
           \<in> set (contentSearchLogged h now s query searchPath)"
proof -
  define rs where "rs = concat (map (\<lambda>f. fst (searchFile h (vault s) query f)) (before @ after))"
  have 1: "searchFile h (vault s) query bad =
           ([], [''Error searching file '' @ path bad @ '': Error: '' @ message err])"
    using bad by (simp add: searchFile_def errorToString_def)
  have 2: "fst (searchLoop h (vault s) query (before @ bad # after) ([], [])) = rs"
    by (simp add: searchLoop_acc 1 rs_def)
  have 3: "obsidian_content_search h now s query searchPath =
           (searchReport query (currentPath listing) rs, s)"
    using listing cands 2
    by (simp add: obsidian_content_search_def contentSearchResults_def Let_def case_prod_beta)
  have 4: "\<forall>r \<in> set rs.
            includesStr (fst (obsidian_content_search h now s query searchPath)) (resultBlock r) \<and>
            (\<forall>m \<in> set (matches r).
               includesStr (fst (obsidian_content_search h now s query searchPath))
                 (matchLine m))"
    by (simp add: 3 report_shows_block report_shows_match)
  have 5: "startsWith (fst (obsidian_content_search h now s query searchPath))
           ''Search results for ''"
    by (simp add: 3 searchReport_def startsWith_def)
  have 6: "(''Error searching file '' @ path bad @ '': Error: '' @ message err)
           \<in> set (contentSearchLogged h now s query searchPath)"
    using listing cands
    by (simp add: contentSearchLogged_def contentSearchResults_def Let_def searchLoop_acc 1
        case_prod_beta)
  from 1 2 3 4 5 6 show ?thesis
    unfolding rs_def by blast
qed


theorem content_search_survives_failed_read_witness:
  "getObsidianFiles (hostAt ''/vault'') (vault exampleServer) 0 [] = Inr exampleListing \<and>
   filter searchable (files exampleListing) = [entryA] @ entrySock # [entryB] \<and>
   readObsidianFile (hostAt ''/vault'') (vault exampleServer) (path entrySock) =
     Inl (Error ''Not a file: Directory cannot be read as a file'') \<and>
   fst (obsidian_content_search (hostAt ''/vault'') 0 exampleServer ''hello'' []) =
     ''Search results for '' @ [CHR 0x22] @ ''hello'' @ [CHR 0x22] @ '' in root:'' @
     [CHR 0x0A, CHR 0x0A] @
     ''a.md (5 B)'' @ [CHR 0x0A] @ ''Matching lines:'' @ [CHR 0x0A] @
     ''  Line 1: hello'' @ [CHR 0x0A] @ [CHR 0x0A] @
     ''b.txt (29 B)'' @ [CHR 0x0A] @ ''Matching lines:'' @ [CHR 0x0A] @
     ''  Line 1: Say Hello'' @ [CHR 0x0A] @
     ''  Line 2: twice: hello, HELLO'' @ [CHR 0x0A] @ [CHR 0x0A] @
     ''Found 2 files containing '' @ [CHR 0x22] @ ''hello'' @ [CHR 0x22] @ ''.'' @ [CHR 0x0A] \<and>
   ''Error searching file sock.md: Error: Not a file: Directory cannot be read as a file''
     \<in> set (contentSearchLogged (hostAt ''/vault'') 0 exampleServer ''hello'' [])"
proof -
  have a: "getObsidianFiles (hostAt ''/vault'') (vault exampleServer) 0 [] = Inr exampleListing"
    by (simp add: getObsidianFiles_def listingPath_def direntInfo_def path_relative_def
        exampleListing_def entryA_def entrySock_def entryB_def exampleServer_def exampleDisk_def
        hostAt_def Let_def path_eval fs_eval showNat.simps digitChar_def)
  have b: "filter searchable (files exampleListing) = [entryA] @ entrySock # [entryB]"
    by (simp add: exampleListing_def entryA_def entrySock_def entryB_def searchable_def
        searchableExtensions_def lastIndexOf_def lower_eval)
  have c: "readObsidianFile (hostAt ''/vault'') (vault exampleServer) (path entrySock) =
     Inl (Error ''Not a file: Directory cannot be read as a file'')"
    by (simp add: readObsidianFile_def filePathOf_def entrySock_def exampleServer_def
        exampleDisk_def hostAt_def Let_def path_eval fs_eval)
  note th = content_search_survives_failed_read [OF a b c, of "''hello''"]
  have rsA: "fst (searchFile (hostAt ''/vault'') (vault exampleServer) ''hello'' entryA) =
      [\<lparr>fileInfo = entryA, preview = ''hello'',
        matches = [\<lparr>line = 1, lineText = ''hello''\<rparr>]\<rparr>]"
    by (simp add: searchFile_def readObsidianFile_def filePathOf_def entryA_def
        exampleServer_def exampleDisk_def hostAt_def Let_def path_eval fs_eval
        path_basename_def matchingLines_def enumerate_eq_zip lower_eval contentPreview_def
        showNat.simps digitChar_def)
  have rsB: "fst (searchFile (hostAt ''/vault'') (vault exampleServer) ''hello'' entryB) =
      [\<lparr>fileInfo = entryB, preview = ''Say Hello'' @ [CHR 0x0A] @ ''twice: hello, HELLO'',
        matches = [\<lparr>line = 1, lineText = ''Say Hello''\<rparr>,
                   \<lparr>line = 2, lineText = ''twice: hello, HELLO''\<rparr>]\<rparr>]"
    by (simp add: searchFile_def readObsidianFile_def filePathOf_def entryB_def
        exampleServer_def exampleDisk_def hostAt_def Let_def path_eval fs_eval
        path_basename_def matchingLines_def enumerate_eq_zip lower_eval contentPreview_def
        showNat.simps digitChar_def)
  have rs: "concat (map (\<lambda>f. fst (searchFile (hostAt ''/vault'') (vault exampleServer) ''hello'' f))
              ([entryA] @ [entryB])) =
      [\<lparr>fileInfo = entryA, preview = ''hello'',
        matches = [\<lparr>line = 1, lineText = ''hello''\<rparr>]\<rparr>,
       \<lparr>fileInfo = entryB, preview = ''Say Hello'' @ [CHR 0x0A] @ ''twice: hello, HELLO'',
        matches = [\<lparr>line = 1, lineText = ''Say Hello''\<rparr>,
                   \<lparr>line = 2, lineText = ''twice: hello, HELLO''\<rparr>]\<rparr>]"
    by (simp only: append.simps list.map concat.simps rsA rsB)
  from th have t: "obsidian_content_search (hostAt ''/vault'') 0 exampleServer ''hello'' [] =
      (searchReport ''hello'' (currentPath exampleListing)
         (concat (map (\<lambda>f. fst (searchFile (hostAt ''/vault'') (vault exampleServer) ''hello'' f))
              ([entryA] @ [entryB]))), exampleServer)"
    by blast
  have d: "fst (obsidian_content_search (hostAt ''/vault'') 0 exampleServer ''hello'' []) =
     ''Search results for '' @ [CHR 0x22] @ ''hello'' @ [CHR 0x22] @ '' in root:'' @
     [CHR 0x0A, CHR 0x0A] @
     ''a.md (5 B)'' @ [CHR 0x0A] @ ''Matching lines:'' @ [CHR 0x0A] @
     ''  Line 1: hello'' @ [CHR 0x0A] @ [CHR 0x0A] @
     ''b.txt (29 B)'' @ [CHR 0x0A] @ ''Matching lines:'' @ [CHR 0x0A] @
     ''  Line 1: Say Hello'' @ [CHR 0x0A] @
     ''  Line 2: twice: hello, HELLO'' @ [CHR 0x0A] @ [CHR 0x0A] @
     ''Found 2 files containing '' @ [CHR 0x22] @ ''hello'' @ [CHR 0x22] @ ''.'' @ [CHR 0x0A]"
    unfolding t rs
    by (simp add: searchReport_def resultBlock_def matchLine_def formatFileSize_def
        exampleListing_def entryA_def entryB_def showNat.simps digitChar_def)
  from th have e: "(''Error searching file '' @ path entrySock @ '': Error: '' @
       message (Error ''Not a file: Directory cannot be read as a file''))
     \<in> set (contentSearchLogged (hostAt ''/vault'') 0 exampleServer ''hello'' [])"
    by blast
  have f: "''Error searching file '' @ path entrySock @ '': Error: '' @
       message (Error ''Not a file: Directory cannot be read as a file'') =
     ''Error searching file sock.md: Error: Not a file: Directory cannot be read as a file''"
    by (simp add: entrySock_def)
  from a b c d e [unfolded f] show ?thesis
    by blast
qed

section \<open>The resource cache\<close>

lemma update_keeps_cache:
  "resourceCache (snd (obsidian_update h now s p n a)) = resourceCache s"
  by (simp add: obsidian_update_def split: prod.splits sum.splits)

lemma create_keeps_cache:
  "resourceCache (snd (obsidian_create h now s p n ow)) = resourceCache s"
  by (simp add: obsidian_create_def split: prod.splits sum.splits)

lemma search_keeps_server: "snd (obsidian_search h now s p q) = s"
  by (simp add: obsidian_search_def Let_def split: sum.splits)

lemma content_search_keeps_server: "snd (obsidian_content_search h now s q p) = s"
  by (simp add: obsidian_content_search_def split: sum.splits prod.splits)

lemma view_keeps_entry:
  "resourceCache s k = Some v \<Longrightarrow> resourceCache (snd (obsidian_view h s p)) k = Some v"
  by (auto simp: obsidian_view_def Let_def split: option.splits cached.splits sum.splits)

lemma callTool_keeps_entry:
  "resourceCache s k = Some v \<Longrightarrow> resourceCache (snd (callTool h s c)) k = Some v"
  by (cases c)
    (simp_all add: update_keeps_cache create_keeps_cache search_keeps_server
       content_search_keeps_server view_keeps_entry)

lemma runCalls_keeps_entry:
  "resourceCache s k = Some v \<Longrightarrow> resourceCache (runCalls h s calls) k = Some v"
  unfolding runCalls_def
  by (induction calls arbitrary: s) (simp_all add: callTool_keeps_entry)

lemma update_vault:
  "vault (snd (obsidian_update h now s p n a)) = snd (updateBody h now (vault s) p n a)"
  by (simp add: obsidian_update_def split: prod.splits sum.splits)

lemma create_vault:
  "vault (snd (obsidian_create h now s p n ow)) = snd (createBody h now (vault s) p n ow)"
  by (simp add: obsidian_create_def split: prod.splits sum.splits)

lemma view_vault: "vault (snd (obsidian_view h s p)) = vault s"
  by (simp add: obsidian_view_def Let_def split: option.splits cached.splits sum.splits prod.splits)

lemma read_vault: "vault (snd (obsidian_read h s href p)) = vault s"
  by (simp add: obsidian_read_def split: sum.splits prod.splits)

text \<open>
  Claim C9. \<open>obsidian-update\<close> and \<open>obsidian-create\<close> leave \<open>resourceCache\<close> as it is.
  So once \<open>obsidian-read\<close> has succeeded for a path and stored its result under
  \<open>obsidian://path/read\<close>, \<open>obsidian-view\<close> of that path shows the stored content and
  file information after any sequence of tool calls, whatever they have written to the
  file in between.
\<close>

theorem view_returns_cached_read:
  assumes rd: "obsidian_read h s0 (''obsidian://'' @ p @ ''/read'') p = (Inr (c, fi), s1)"
  shows "resourceCache (snd (obsidian_update h now s q n a)) = resourceCache s \<and>
         resourceCache (snd (obsidian_create h now s q n ow)) = resourceCache s \<and>
         readObsidianFile h (vault s0) p = Inr (c, fi) \<and>
         resourceCache (runCalls h s1 calls) (''obsidian://'' @ p @ ''/read'') =
           Some (CachedRead c fi) \<and>
         obsidian_view h (runCalls h s1 calls) p = (viewText h c fi, runCalls h s1 calls)"
proof -
  from rd have r0: "readObsidianFile h (vault s0) p = Inr (c, fi)"
    by (auto simp: obsidian_read_def split: sum.splits prod.splits)
  with rd have "resourceCache s1 (''obsidian://'' @ p @ ''/read'') = Some (CachedRead c fi)"
    by (auto simp: obsidian_read_def)
  then have k: "resourceCache (runCalls h s1 calls) (''obsidian://'' @ p @ ''/read'') =
      Some (CachedRead c fi)"
    by (rule runCalls_keeps_entry)
  then have v: "obsidian_view h (runCalls h s1 calls) p = (viewText h c fi, runCalls h s1 calls)"
    by (simp add: obsidian_view_def Let_def)
  from r0 k v show ?thesis
    by (simp add: update_keeps_cache create_keeps_cache)
qed


theorem view_returns_cached_read_witness:
  "obsidian_read (hostAt ''/vault'') exampleServer ''obsidian://a.md/read'' ''a.md'' =
     (Inr (''hello'', entryA),
      snd (obsidian_read (hostAt ''/vault'') exampleServer ''obsidian://a.md/read'' ''a.md'')) \<and>
   map_sum id fst
     (readObsidianFile (hostAt ''/vault'')
        (vault (runCalls (hostAt ''/vault'')
           (snd (obsidian_read (hostAt ''/vault'') exampleServer ''obsidian://a.md/read'' ''a.md''))
           staleCalls)) ''a.md'') = Inr ''again'' \<and>
   fst (obsidian_view (hostAt ''/vault'')
          (runCalls (hostAt ''/vault'')
             (snd (obsidian_read (hostAt ''/vault'') exampleServer ''obsidian://a.md/read'' ''a.md''))
             staleCalls) ''a.md'') =
     viewText (hostAt ''/vault'') ''hello'' entryA \<and>
   viewText (hostAt ''/vault'') ''hello'' entryA =
     ''File: a.md'' @ [CHR 0x0A] @ ''Size: 5 B'' @ [CHR 0x0A] @ ''Last Modified: L3'' @
     [CHR 0x0A, CHR 0x0A] @ ''Markdown Content:'' @ [CHR 0x0A, CHR 0x0A] @ ''hello''"
proof -
  have rd: "readObsidianFile (hostAt ''/vault'') (vault exampleServer) ''a.md'' =
      Inr (''hello'', entryA)"
    by (simp add: readObsidianFile_def filePathOf_def entryA_def exampleServer_def
        exampleDisk_def hostAt_def Let_def path_eval fs_eval path_basename_def
        showNat.simps digitChar_def)
  have a: "obsidian_read (hostAt ''/vault'') exampleServer (''obsidian://'' @ ''a.md'' @ ''/read'') ''a.md'' =
     (Inr (''hello'', entryA),
      snd (obsidian_read (hostAt ''/vault'') exampleServer (''obsidian://'' @ ''a.md'' @ ''/read'') ''a.md''))"
    by (simp add: obsidian_read_def rd)
  have a2: "obsidian_read (hostAt ''/vault'') exampleServer ''obsidian://a.md/read'' ''a.md'' =
     (Inr (''hello'', entryA),
      snd (obsidian_read (hostAt ''/vault'') exampleServer ''obsidian://a.md/read'' ''a.md''))"
    using a by simp
  have v: "vault (runCalls (hostAt ''/vault'')
           (snd (obsidian_read (hostAt ''/vault'') exampleServer ''obsidian://a.md/read'' ''a.md''))
           staleCalls) =
        snd (createBody (hostAt ''/vault'') 100
          (snd (updateBody (hostAt ''/vault'') 99 exampleDisk ''a.md'' ''changed'' False))
          ''a.md'' ''again'' True)"
    by (simp add: runCalls_def staleCalls_def update_vault create_vault view_vault read_vault
        exampleServer_def)
  have disk: "map_sum id fst
     (readObsidianFile (hostAt ''/vault'')
        (vault (runCalls (hostAt ''/vault'')
           (snd (obsidian_read (hostAt ''/vault'') exampleServer ''obsidian://a.md/read'' ''a.md''))
           staleCalls)) ''a.md'') = Inr ''again''"
    unfolding v
    by (simp add: updateBody_def createBody_def readObsidianFile_def filePathOf_def
        exampleDisk_def hostAt_def Let_def path_eval fs_eval path_dirname_def)
  have shown: "viewText (hostAt ''/vault'') ''hello'' entryA =
     ''File: a.md'' @ [CHR 0x0A] @ ''Size: 5 B'' @ [CHR 0x0A] @ ''Last Modified: L3'' @
     [CHR 0x0A, CHR 0x0A] @ ''Markdown Content:'' @ [CHR 0x0A, CHR 0x0A] @ ''hello''"
    by (simp add: viewText_def entryA_def hostAt_def Let_def formatFileSize_def
        path_extname_def path_basename_def segments_def lastIndexOf_def lower_eval
        showNat.simps digitChar_def)
  note th = view_returns_cached_read [OF a, of 0 exampleServer "[]" "[]" False False staleCalls]
  from th have "obsidian_view (hostAt ''/vault'')
          (runCalls (hostAt ''/vault'')
             (snd (obsidian_read (hostAt ''/vault'') exampleServer (''obsidian://'' @ ''a.md'' @ ''/read'') ''a.md''))
             staleCalls) ''a.md'' =
     (viewText (hostAt ''/vault'') ''hello'' entryA,
      runCalls (hostAt ''/vault'')
             (snd (obsidian_read (hostAt ''/vault'') exampleServer (''obsidian://'' @ ''a.md'' @ ''/read'') ''a.md''))
             staleCalls)"
    by blast
  then have vw: "fst (obsidian_view (hostAt ''/vault'')
          (runCalls (hostAt ''/vault'')
             (snd (obsidian_read (hostAt ''/vault'') exampleServer ''obsidian://a.md/read'' ''a.md''))
             staleCalls) ''a.md'') =
     viewText (hostAt ''/vault'') ''hello'' entryA"
    by simp
  from a2 disk vw shown show ?thesis
    by blast
qed

section \<open>The budget of a local search\<close>

lemma getPoisData_frame:
  "second (snd (getPoisData rc r)) = second rc \<and> lastReset (snd (getPoisData rc r)) = lastReset rc"
  by (simp add: getPoisData_def Let_def)

lemma getDescriptionsData_frame:
  "second (snd (getDescriptionsData rc r)) = second rc \<and>
   lastReset (snd (getDescriptionsData rc r)) = lastReset rc"
  by (simp add: getDescriptionsData_def Let_def)

lemma checkRateLimit_allowed:
  "month rc < 15000 \<Longrightarrow>
   checkRateLimit now rc =
     (Inr (),
      \<lparr>second = (if now - lastReset rc > 1000 then 0 else second rc) + 1,
       month = month rc + 1,
       lastReset = (if now - lastReset rc > 1000 then now else lastReset rc)\<rparr>)"
  by (simp add: checkRateLimit_def RATE_LIMIT_perMonth_def Let_def)

lemma getPoisData_allowed:
  "month rc < 15000 \<Longrightarrow> ok r \<Longrightarrow>
   getPoisData rc r = (Inr (json r), rc\<lparr>month := month rc + 1\<rparr>)"
  by (simp add: getPoisData_def RATE_LIMIT_perMonth_def Let_def)

lemma getDescriptionsData_allowed:
  "month rc < 15000 \<Longrightarrow>
   snd (getDescriptionsData rc r) = rc\<lparr>month := month rc + 1\<rparr>"
  by (simp add: getDescriptionsData_def RATE_LIMIT_perMonth_def Let_def)

text \<open>
  Claim C10, as stated: every \<open>brave_local_search\<close> whose first query returns a location
  id consumes exactly 3 units of the monthly budget. With 14999 calls already counted,
  the first query takes the last unit, \<open>getPoisData\<close> refuses, and the call has
  consumed 1.
\<close>

theorem local_search_stops_at_budget:
  "ok locationsFound \<and>
   filter (\<lambda>r. r \<noteq> None) (locationIds (json locationsFound)) = [Some ''loc1''] \<and>
   brave_local_search ''key'' 5000 7000 almostSpent locationsFound locationsFound poisFound
       descriptionsFound =
     (\<lparr>resultText = ''Error: Monthly rate limit exceeded'', isError = True\<rparr>,
      \<lparr>second = 1, month = 15000, lastReset = 5000\<rparr>) \<and>
   month almostSpent = 14999"
  by (simp add: brave_local_search_def performLocalSearch_def checkRateLimit_def
      getPoisData_def almostSpent_def locationsFound_def RATE_LIMIT_perMonth_def Let_def)

text \<open>
  Claim C10, amended. A \<open>brave_local_search\<close> with the key set, whose first query
  succeeds and returns a location id, whose POI request succeeds, and which starts with
  at least 3 units left, consumes exactly 3 units: one in \<open>checkRateLimit\<close>, one in
  \<open>getPoisData\<close>, one in \<open>getDescriptionsData\<close>. The per-second count is incremented
  once, by \<open>checkRateLimit\<close> and after its reset when that is due; the two lookups
  change neither the per-second count nor the reset time.
\<close>

theorem local_search_consumes_three:
  assumes key: "apiKey \<noteq> []"
      and web: "ok webResponse"
      and ids: "filter (\<lambda>r. r \<noteq> None) (locationIds (json webResponse)) \<noteq> []"
      and pois: "ok poisResponse"
      and room: "month rc + 3 \<le> 15000"
  shows "month (snd (brave_local_search apiKey now later rc webResponse fallbackResponse
                       poisResponse descResponse)) = month rc + 3 \<and>
         second (snd (brave_local_search apiKey now later rc webResponse fallbackResponse
                       poisResponse descResponse)) =
           (if now - lastReset rc > 1000 then 0 else second rc) + 1 \<and>
         lastReset (snd (brave_local_search apiKey now later rc webResponse fallbackResponse
                       poisResponse descResponse)) =
           (if now - lastReset rc > 1000 then now else lastReset rc) \<and>
         month (snd (checkRateLimit now rc)) = month rc + 1 \<and>
         month (snd (getPoisData (snd (checkRateLimit now rc)) poisResponse)) = month rc + 2 \<and>
         second (snd (getPoisData rc' r1)) = second rc' \<and>
         lastReset (snd (getPoisData rc' r1)) = lastReset rc' \<and>
         second (snd (getDescriptionsData rc' r2)) = second rc' \<and>
         lastReset (snd (getDescriptionsData rc' r2)) = lastReset rc'"
proof -
  define rc1 where "rc1 =
     \<lparr>second = (if now - lastReset rc > 1000 then 0 else second rc) + 1,
       month = month rc + 1,
       lastReset = (if now - lastReset rc > 1000 then now else lastReset rc)\<rparr>"
  define rc2 where "rc2 = rc1\<lparr>month := month rc1 + 1\<rparr>"
  define rc3 where "rc3 = rc2\<lparr>month := month rc2 + 1\<rparr>"
  from room have m0: "month rc < 15000" by simp
  from room have m1: "month rc1 < 15000" by (simp add: rc1_def)
  from room have m2: "month rc2 < 15000" by (simp add: rc2_def rc1_def)
  have s1: "checkRateLimit now rc = (Inr (), rc1)"
    unfolding rc1_def by (rule checkRateLimit_allowed [OF m0])
  have s2: "getPoisData rc1 poisResponse = (Inr (json poisResponse), rc2)"
    unfolding rc2_def by (rule getPoisData_allowed [OF m1 pois])
  have s3: "snd (getDescriptionsData rc2 descResponse) = rc3"
    unfolding rc3_def by (rule getDescriptionsData_allowed [OF m2])
  have pl: "snd (performLocalSearch now later rc webResponse fallbackResponse
                       poisResponse descResponse) = rc3"
    using web ids s3
    by (auto simp: performLocalSearch_def s1 s2 Let_def split: prod.splits sum.splits)
  have whole: "snd (brave_local_search apiKey now later rc webResponse fallbackResponse
                       poisResponse descResponse) = rc3"
    using key pl by (auto simp: brave_local_search_def split: prod.splits sum.splits)
  have a: "month rc3 = month rc + 3"
    by (simp add: rc3_def rc2_def rc1_def)
  have b: "second rc3 = (if now - lastReset rc > 1000 then 0 else second rc) + 1"
    by (simp add: rc3_def rc2_def rc1_def)
  have c: "lastReset rc3 = (if now - lastReset rc > 1000 then now else lastReset rc)"
    by (simp add: rc3_def rc2_def rc1_def)
  have d: "month (snd (checkRateLimit now rc)) = month rc + 1"
    by (simp add: s1 rc1_def)
  have e0: "month rc2 = month rc + 2"
    by (simp add: rc2_def rc1_def)
  have e: "month (snd (getPoisData (snd (checkRateLimit now rc)) poisResponse)) = month rc + 2"
    unfolding s1 snd_conv s2 by (rule e0)
  show ?thesis
    unfolding whole
    using a b c d e getPoisData_frame [of rc' r1] getDescriptionsData_frame [of rc' r2]
    by blast
qed

theorem local_search_consumes_three_witness:
  "''key'' \<noteq> [] \<and> ok locationsFound \<and>
   filter (\<lambda>r. r \<noteq> None) (locationIds (json locationsFound)) \<noteq> [] \<and>
   ok poisFound \<and> month freshCount + 3 \<le> 15000 \<and>
   month freshCount = 100 \<and> second freshCount = 4 \<and>
   month (snd (brave_local_search ''key'' 5000 7000 freshCount locationsFound locationsFound
                 poisFound descriptionsFound)) = 103 \<and>
   second (snd (brave_local_search ''key'' 5000 7000 freshCount locationsFound locationsFound
                 poisFound descriptionsFound)) = 1"
proof -
  have a: "''key'' \<noteq> []" by simp
  have b: "ok locationsFound" by (simp add: locationsFound_def)
  have c: "filter (\<lambda>r. r \<noteq> None) (locationIds (json locationsFound)) \<noteq> []"
    by (simp add: locationsFound_def)
  have d: "ok poisFound" by (simp add: poisFound_def)
  have e: "month freshCount + 3 \<le> 15000" by (simp add: freshCount_def)
  have f: "month freshCount = 100 \<and> second freshCount = 4 \<and> lastReset freshCount = 0"
    by (simp add: freshCount_def)
  from local_search_consumes_three [OF a b c d e, of 5000 7000 locationsFound descriptionsFound]
    b c d e f
  show ?thesis
    by simp
qed

end
